theory Spec2Isabelle
  imports Complex_Main "HOL-Library.Multiset"
begin

section \<open>Tabular data\<close>

text \<open>
  The services work on pandas data frames. A frame is modelled row-wise: an ordered list of
  column labels, each with the dtype pandas reports for the column, and a list of rows. A row
  maps column labels to cells; a label without an entry reads as a missing value. A cell is a
  missing value, a Python string or a Python integer; floating-point cells are not modelled.
  The missing value \<open>Null\<close> is the one the readers of the tabular library put into a frame
  for an empty field, and the one a reindexing fills in: NaN, or \<open><NA>\<close> in a column of the
  string extension dtype. The program never stores Python's \<open>None\<close> in a frame, and \<open>None\<close>
  is not a value of the type of cells.
\<close>

datatype cell = Null | Str string | Num int

datatype dtype = Int64 | Int32 | Float64 | Float32 | Object | StringDtype | Datetime64ns
  | BoolDtype | Category

type_synonym row = "(string \<times> cell) list"

record dataframe =
  columns :: "(string \<times> dtype) list"
  rows :: "row list"

fun dtype_str :: "dtype \<Rightarrow> string" where
  "dtype_str Int64 = ''int64''"
| "dtype_str Int32 = ''int32''"
| "dtype_str Float64 = ''float64''"
| "dtype_str Float32 = ''float32''"
| "dtype_str Object = ''object''"
| "dtype_str StringDtype = ''string''"
| "dtype_str Datetime64ns = ''datetime64[ns]''"
| "dtype_str BoolDtype = ''bool''"
| "dtype_str Category = ''category''"

definition len :: "dataframe \<Rightarrow> nat" where
  "len df = length (rows df)"

definition column_names :: "dataframe \<Rightarrow> string list" where
  "column_names df = map fst (columns df)"

definition col_value :: "string \<Rightarrow> row \<Rightarrow> cell" where
  "col_value c r = (case map_of r c of None \<Rightarrow> Null | Some v \<Rightarrow> v)"

text \<open>\<open>df[col]\<close>: the values of one column, and its dtype.\<close>

definition series :: "dataframe \<Rightarrow> string \<Rightarrow> cell list" where
  "series df c = map (col_value c) (rows df)"

definition col_dtype :: "dataframe \<Rightarrow> string \<Rightarrow> dtype" where
  "col_dtype df c = (case map_of (columns df) c of None \<Rightarrow> Object | Some d \<Rightarrow> d)"

definition isna :: "cell \<Rightarrow> bool" where
  "isna v = (v = Null)"

definition dropna :: "cell list \<Rightarrow> cell list" where
  "dropna vs = filter (\<lambda>v. \<not> isna v) vs"

text \<open>\<open>Series.isin(values)\<close>: membership, where a missing value matches a missing value.\<close>

definition isin :: "cell \<Rightarrow> cell set \<Rightarrow> bool" where
  "isin v vals = (v \<in> vals)"

text \<open>\<open>df[mask]\<close>: the rows selected by a boolean mask, the columns unchanged.\<close>

definition select_rows :: "(row \<Rightarrow> bool) \<Rightarrow> dataframe \<Rightarrow> dataframe" where
  "select_rows keep df = df\<lparr>rows := filter keep (rows df)\<rparr>"

subsection \<open>Strings\<close>

text \<open>Python's \<open>in\<close> on strings: \<open>contains p s\<close> holds when \<open>p\<close> occurs in \<open>s\<close>.\<close>

fun contains :: "string \<Rightarrow> string \<Rightarrow> bool" where
  "contains p [] = (p = [])"
| "contains p (x # xs) = (take (length p) (x # xs) = p \<or> contains p xs)"

text \<open>
  A character is a code point below 256, so that a string is a text of the Latin-1 range; text
  beyond it is not a value of the type of strings. \<open>str.lower()\<close> maps the upper-case letters
  of this range to their lower-case ones: A to Z, and the code points from 0xC0 to 0xDE other
  than the multiplication sign 0xD7, each to the code point 0x20 above it.
\<close>

definition upper_letters :: string where
  "upper_letters = ''ABCDEFGHIJKLMNOPQRSTUVWXYZ'' @
     [CHR 0xC0, CHR 0xC1, CHR 0xC2, CHR 0xC3, CHR 0xC4, CHR 0xC5, CHR 0xC6, CHR 0xC7,
      CHR 0xC8, CHR 0xC9, CHR 0xCA, CHR 0xCB, CHR 0xCC, CHR 0xCD, CHR 0xCE, CHR 0xCF,
      CHR 0xD0, CHR 0xD1, CHR 0xD2, CHR 0xD3, CHR 0xD4, CHR 0xD5, CHR 0xD6,
      CHR 0xD8, CHR 0xD9, CHR 0xDA, CHR 0xDB, CHR 0xDC, CHR 0xDD, CHR 0xDE]"

definition lower_letters :: string where
  "lower_letters = ''abcdefghijklmnopqrstuvwxyz'' @
     [CHR 0xE0, CHR 0xE1, CHR 0xE2, CHR 0xE3, CHR 0xE4, CHR 0xE5, CHR 0xE6, CHR 0xE7,
      CHR 0xE8, CHR 0xE9, CHR 0xEA, CHR 0xEB, CHR 0xEC, CHR 0xED, CHR 0xEE, CHR 0xEF,
      CHR 0xF0, CHR 0xF1, CHR 0xF2, CHR 0xF3, CHR 0xF4, CHR 0xF5, CHR 0xF6,
      CHR 0xF8, CHR 0xF9, CHR 0xFA, CHR 0xFB, CHR 0xFC, CHR 0xFD, CHR 0xFE]"

definition lower_char :: "char \<Rightarrow> char" where
  "lower_char c =
    (case map_of (zip upper_letters lower_letters) c of None \<Rightarrow> c | Some l \<Rightarrow> l)"

definition str_lower :: "string \<Rightarrow> string" where
  "str_lower s = map lower_char s"

text \<open>\<open>str\<close> of a Python integer: its decimal digits.\<close>

definition digit_char :: "nat \<Rightarrow> char" where
  "digit_char d = ''0123456789'' ! d"

function str_nat :: "nat \<Rightarrow> string" where
  "str_nat n = (if n < 10 then [digit_char n] else str_nat (n div 10) @ [digit_char (n mod 10)])"
  by pat_completeness auto
termination
  by (relation "measure id") auto

declare str_nat.simps [simp del]

definition str_int :: "int \<Rightarrow> string" where
  "str_int i = (if i < 0 then CHR ''-'' # str_nat (nat (- i)) else str_nat (nat i))"

definition quoted :: "string \<Rightarrow> string" where
  "quoted s = CHR 0x27 # s @ [CHR 0x27]"

text \<open>
  \<open>Series.astype(str)\<close> turns every element into its \<open>str\<close>; the missing value NaN of an
  object column becomes \<open>nan\<close>, and the missing value of a column of the string extension
  dtype becomes \<open><NA>\<close>.
\<close>

definition py_str :: "dtype \<Rightarrow> cell \<Rightarrow> string" where
  "py_str dt v = (case v of
       Null \<Rightarrow> (if dt = StringDtype then ''<NA>'' else ''nan'')
     | Str s \<Rightarrow> s
     | Num i \<Rightarrow> str_int i)"

text \<open>\<open>s.astype(str).str.lower()\<close>, element by element.\<close>

definition lower_cell :: "dtype \<Rightarrow> cell \<Rightarrow> cell" where
  "lower_cell dt v = Str (str_lower (py_str dt v))"

text \<open>The test \<open>s.dtype == 'object' or str(s.dtype) == 'string'\<close> of the engine.\<close>

definition string_like :: "dtype \<Rightarrow> bool" where
  "string_like dt = (dt = Object \<or> dtype_str dt = ''string'')"

section \<open>Comparison engine\<close>

text \<open>
  Raised exceptions are values: each constructor is an exception class the services raise or
  catch, with its message.
\<close>

datatype error =
    InterruptedError string
  | ValueError string
  | KeyError string
  | ZeroDivisionError
  | RuntimeError string
  | MemoryError string
  | PermissionError string
  | OSError string
  | FileNotFoundError string
  | UnicodeDecodeError string
  | Exception string
  | FileParsingError string
  | UnsupportedFileFormatError string
  | InvalidFileFormatError string
  | ComparisonOperationError string
  | ExportError string
  | ValidationError string

record OperationResult =
  result_data :: dataframe
  original_count :: nat
  result_count :: nat
  operation_type :: string
  summary :: string

text \<open>
  The engine's state is its cancellation flag. The processing time of a result is wall-clock
  time and is left out of the result record.
\<close>

record engine =
  cancelled :: bool

definition numeric_types :: "string list" where
  "numeric_types = [''int64'', ''int32'', ''float64'', ''float32'', ''number'']"

definition datetime_types :: "string list" where
  "datetime_types = [''datetime64[ns]'', ''datetime'']"

definition get_type_group :: "dtype \<Rightarrow> string" where
  "get_type_group dt = (let dtype_s = dtype_str dt in
     if list_ex (\<lambda>t. contains t dtype_s) numeric_types then ''numeric''
     else if list_ex (\<lambda>t. contains t dtype_s) datetime_types then ''datetime''
     else ''string'')"

definition validate_column_compatibility ::
  "dataframe \<Rightarrow> dataframe \<Rightarrow> string \<Rightarrow> string \<Rightarrow> bool \<times> string" where
  "validate_column_compatibility df1 df2 col1 col2 =
    (if col1 \<notin> set (column_names df1) then
       (False, ''Column '' @ quoted col1 @ '' not found in first file'')
     else if col2 \<notin> set (column_names df2) then
       (False, ''Column '' @ quoted col2 @ '' not found in second file'')
     else if len df1 > 0 \<and> list_all isna (series df1 col1) then
       (False, ''Column '' @ quoted col1 @ '' in first file contains only null values'')
     else if len df2 > 0 \<and> list_all isna (series df2 col2) then
       (False, ''Column '' @ quoted col2 @ '' in second file contains only null values'')
     else let type_group1 = get_type_group (col_dtype df1 col1);
              type_group2 = get_type_group (col_dtype df2 col2) in
       if type_group1 \<noteq> type_group2 then
         (False, ''Incompatible column types: '' @ quoted col1 @ '' is '' @ type_group1
                 @ '' but '' @ quoted col2 @ '' is '' @ type_group2)
       else (True, ''Columns are compatible''))"

text \<open>
  \<open>_prepare_comparison_values\<close>: the non-null values of both columns as sets, lower-cased
  for a case-insensitive comparison of string-like columns.
\<close>

definition prepare_values :: "dataframe \<Rightarrow> string \<Rightarrow> bool \<Rightarrow> cell set" where
  "prepare_values df col case_sensitive =
    (let values = dropna (series df col); dt = col_dtype df col in
     if \<not> case_sensitive \<and> string_like dt then set (map (lower_cell dt) values)
     else set values)"

definition prepare_comparison_values ::
  "dataframe \<Rightarrow> dataframe \<Rightarrow> string \<Rightarrow> string \<Rightarrow> bool \<Rightarrow> cell set \<times> cell set" where
  "prepare_comparison_values df1 df2 col1 col2 case_sensitive =
    (prepare_values df1 col1 case_sensitive, prepare_values df2 col2 case_sensitive)"

text \<open>
  The mask of the direct path of \<open>remove_matches\<close> and \<open>keep_only_matches\<close>: whether the
  value of a row of the second frame is among the values of the first frame's column. The
  case-insensitive branch is chosen by the dtype of the second frame's column alone.
\<close>

definition match_mask :: "dataframe \<Rightarrow> dataframe \<Rightarrow> string \<Rightarrow> string \<Rightarrow> bool \<Rightarrow> row \<Rightarrow> bool" where
  "match_mask df1 df2 col1 col2 case_sensitive r =
    (if case_sensitive then isin (col_value col2 r) (set (series df1 col1))
     else if string_like (col_dtype df2 col2) then
       isin (lower_cell (col_dtype df2 col2) (col_value col2 r))
            (set (map (lower_cell (col_dtype df1 col1)) (series df1 col1)))
     else isin (col_value col2 r) (set (series df1 col1)))"


subsection \<open>Combining frames\<close>

text \<open>
  \<open>df['_source_file'] = tag\<close> sets the column in every row, replacing a column of that name
  or appending a new last one.
\<close>

definition set_cell :: "string \<Rightarrow> cell \<Rightarrow> row \<Rightarrow> row" where
  "set_cell c v r =
    (if c \<in> set (map fst r) then map (\<lambda>(k, w). if k = c then (k, v) else (k, w)) r
     else r @ [(c, v)])"

definition set_dtype :: "dataframe \<Rightarrow> string \<Rightarrow> dtype \<Rightarrow> dataframe" where
  "set_dtype df c d =
    df\<lparr>columns := map (\<lambda>(k, t). if k = c then (k, d) else (k, t)) (columns df)\<rparr>"

definition assign_column :: "string \<Rightarrow> cell \<Rightarrow> dataframe \<Rightarrow> dataframe" where
  "assign_column c v df =
    \<lparr>columns = (if c \<in> set (column_names df) then columns (set_dtype df c Object)
                 else columns df @ [(c, Object)]),
     rows = map (set_cell c v) (rows df)\<rparr>"

text \<open>
  \<open>pd.concat(frames, ignore_index=True)\<close>. Frames with neither rows nor columns are left out,
  unless all are such. The columns are the union of the remaining frames' columns in order of
  first appearance, the rows follow each other, and a row has a missing value in every column
  its frame lacks. A column that every frame has keeps its dtype; a column that some frame
  lacks gets a dtype that can hold the missing value: an integer column becomes \<open>float64\<close>
  and a boolean column becomes \<open>object\<close>. An integer cell of a column that has become
  \<open>float64\<close> stands for the float of the same value. Where two frames have a column of the
  same name with different dtypes, the model takes the dtype of the first.
\<close>

fun union_columns :: "(string \<times> dtype) list list \<Rightarrow> (string \<times> dtype) list" where
  "union_columns [] = []"
| "union_columns (cs # css) =
     cs @ filter (\<lambda>(k, t). k \<notin> set (map fst cs)) (union_columns css)"

definition reindex :: "string list \<Rightarrow> row \<Rightarrow> row" where
  "reindex names r = map (\<lambda>c. (c, col_value c r)) names"

fun ensure_dtype_can_hold_na :: "dtype \<Rightarrow> dtype" where
  "ensure_dtype_can_hold_na Int64 = Float64"
| "ensure_dtype_can_hold_na Int32 = Float64"
| "ensure_dtype_can_hold_na BoolDtype = Object"
| "ensure_dtype_can_hold_na t = t"

definition non_empties :: "dataframe list \<Rightarrow> dataframe list" where
  "non_empties dfs =
    (let kept = filter (\<lambda>df. 0 < len df + length (columns df)) dfs in
     if kept \<noteq> [] then kept else dfs)"

definition pd_concat :: "dataframe list \<Rightarrow> dataframe" where
  "pd_concat dfs =
    (let objs = non_empties dfs;
         cols = map (\<lambda>(c, t).
                  (c, if list_all (\<lambda>df. c \<in> set (column_names df)) objs then t
                      else ensure_dtype_can_hold_na t))
                (union_columns (map columns objs)) in
     \<lparr>columns = cols, rows = map (reindex (map fst cols)) (concat (map rows objs))\<rparr>)"


section \<open>Performance optimizer\<close>

definition chunk_size :: nat where
  "chunk_size = 10000"

text \<open>\<open>_chunk_dataframe\<close>: consecutive slices of \<open>chunk_size\<close> rows.\<close>

function chunks :: "nat \<Rightarrow> 'a list \<Rightarrow> 'a list list" where
  "chunks n xs = (if n = 0 \<or> xs = [] then [] else take n xs # chunks n (drop n xs))"
  by pat_completeness auto
termination
  by (relation "measure (\<lambda>(n, xs). length xs)") auto

definition chunk_dataframe :: "dataframe \<Rightarrow> dataframe list" where
  "chunk_dataframe df = map (\<lambda>rs. df\<lparr>rows := rs\<rparr>) (chunks chunk_size (rows df))"

definition process_dataframe_chunks ::
  "dataframe \<Rightarrow> (dataframe \<Rightarrow> dataframe) \<Rightarrow> dataframe" where
  "process_dataframe_chunks df process_func =
    (if len df \<le> chunk_size then process_func df
     else pd_concat (map process_func (chunk_dataframe df)))"

text \<open>\<open>Series.nunique()\<close>: the number of distinct non-null values.\<close>

definition nunique :: "cell list \<Rightarrow> nat" where
  "nunique vs = card (set (dropna vs))"

text \<open>
  \<open>_optimize_dataframe\<close>: an object column among the important ones becomes categorical
  when fewer than half of its values are distinct. The ratio \<open>nunique / len\<close> is a division
  of Python integers and raises on a frame without rows; \<open>ratio < 0.5\<close> is written
  \<open>2 * nunique < len\<close>.
\<close>

fun optimize_dataframe :: "dataframe \<Rightarrow> string list \<Rightarrow> error + dataframe" where
  "optimize_dataframe df [] = Inr df"
| "optimize_dataframe df (col # cols) =
    (if col \<in> set (column_names df) \<and> col_dtype df col = Object then
       (if len df = 0 then Inl ZeroDivisionError
        else if 2 * nunique (series df col) < len df
          then optimize_dataframe (set_dtype df col Category) cols
          else optimize_dataframe df cols)
     else optimize_dataframe df cols)"

text \<open>
  \<open>_create_optimized_lookup\<close>: the non-null values of the column, lower-cased only when the
  comparison is case-insensitive and the column still has dtype object.
\<close>

definition lookup_values :: "dataframe \<Rightarrow> string \<Rightarrow> bool \<Rightarrow> cell set" where
  "lookup_values df col case_sensitive =
    (let values = dropna (series df col) in
     if \<not> case_sensitive \<and> col_dtype df col = Object then set (map (lower_cell Object) values)
     else set values)"

definition create_optimized_lookup :: "dataframe \<Rightarrow> string \<Rightarrow> bool \<Rightarrow> error + cell set" where
  "create_optimized_lookup df col case_sensitive =
    (if col \<notin> set (column_names df) then Inl (KeyError col)
     else Inr (lookup_values df col case_sensitive))"

text \<open>
  The mask of the optimized operations: the value of the row, lower-cased when the comparison
  is case-insensitive and the column has dtype object, looked up in the given set.
\<close>

definition optimized_mask :: "dataframe \<Rightarrow> string \<Rightarrow> cell set \<Rightarrow> bool \<Rightarrow> row \<Rightarrow> bool" where
  "optimized_mask df col lookup_set case_sensitive r =
    (if case_sensitive then isin (col_value col r) lookup_set
     else isin (if col_dtype df col = Object then lower_cell Object (col_value col r)
                else col_value col r) lookup_set)"

definition optimized_remove_matches ::
  "dataframe \<Rightarrow> string \<Rightarrow> cell set \<Rightarrow> bool \<Rightarrow> bool \<Rightarrow> error + dataframe" where
  "optimized_remove_matches df col lookup_set case_sensitive use_chunked =
    (if col \<notin> set (column_names df) then Inl (KeyError col)
     else if \<not> use_chunked then
       Inr (select_rows (\<lambda>r. \<not> optimized_mask df col lookup_set case_sensitive r) df)
     else Inr (process_dataframe_chunks df
       (\<lambda>chunk. select_rows (\<lambda>r. \<not> optimized_mask chunk col lookup_set case_sensitive r) chunk)))"

definition optimized_keep_matches ::
  "dataframe \<Rightarrow> string \<Rightarrow> cell set \<Rightarrow> bool \<Rightarrow> bool \<Rightarrow> error + dataframe" where
  "optimized_keep_matches df col lookup_set case_sensitive use_chunked =
    (if col \<notin> set (column_names df) then Inl (KeyError col)
     else if \<not> use_chunked then
       Inr (select_rows (optimized_mask df col lookup_set case_sensitive) df)
     else Inr (process_dataframe_chunks df
       (\<lambda>chunk. select_rows (optimized_mask chunk col lookup_set case_sensitive) chunk)))"

definition source_file :: string where
  "source_file = ''_source_file''"

text \<open>
  The two frames of selected rows, tagged with their source file and concatenated, as both the
  engine and the optimizer build the result of \<open>find_common\<close> and \<open>find_unique\<close>.
\<close>

definition tagged_concat :: "dataframe \<Rightarrow> dataframe \<Rightarrow> dataframe" where
  "tagged_concat df1_part df2_part =
    pd_concat [assign_column source_file (Str ''file1'') df1_part,
               assign_column source_file (Str ''file2'') df2_part]"

definition optimized_find_common ::
  "dataframe \<Rightarrow> dataframe \<Rightarrow> string \<Rightarrow> string \<Rightarrow> cell set \<Rightarrow> bool \<Rightarrow> error + dataframe" where
  "optimized_find_common df1 df2 col1 col2 lookup_set case_sensitive =
    (if col2 \<notin> set (column_names df2) then Inl (KeyError col2)
     else if col1 \<notin> set (column_names df1) then Inl (KeyError col1)
     else let df2_set = lookup_values df2 col2 case_sensitive;
              common_values = lookup_set \<inter> df2_set in
       Inr (tagged_concat
         (select_rows (optimized_mask df1 col1 common_values case_sensitive) df1)
         (select_rows (optimized_mask df2 col2 common_values case_sensitive) df2)))"

definition optimized_find_unique ::
  "dataframe \<Rightarrow> dataframe \<Rightarrow> string \<Rightarrow> string \<Rightarrow> cell set \<Rightarrow> bool \<Rightarrow> error + dataframe" where
  "optimized_find_unique df1 df2 col1 col2 lookup_set case_sensitive =
    (if col2 \<notin> set (column_names df2) then Inl (KeyError col2)
     else if col1 \<notin> set (column_names df1) then Inl (KeyError col1)
     else let df2_set = lookup_values df2 col2 case_sensitive;
              unique_to_df1 = lookup_set - df2_set;
              unique_to_df2 = df2_set - lookup_set in
       Inr (tagged_concat
         (select_rows (optimized_mask df1 col1 unique_to_df1 case_sensitive) df1)
         (select_rows (optimized_mask df2 col2 unique_to_df2 case_sensitive) df2)))"

text \<open>
  \<open>optimize_comparison_operation\<close>. Progress notifications and memory sampling do not
  influence the result and are not modelled.
\<close>

definition optimize_comparison_operation ::
  "dataframe \<Rightarrow> dataframe \<Rightarrow> string \<Rightarrow> string \<Rightarrow> string \<Rightarrow> bool \<Rightarrow> error + dataframe" where
  "optimize_comparison_operation df1 df2 col1 col2 operation case_sensitive =
    (let total_rows = len df1 + len df2; use_chunked = total_rows > 50000 in
     case optimize_dataframe df1 [col1] of Inl e \<Rightarrow> Inl e | Inr df1_opt \<Rightarrow>
     case optimize_dataframe df2 [col2] of Inl e \<Rightarrow> Inl e | Inr df2_opt \<Rightarrow>
     case create_optimized_lookup df1_opt col1 case_sensitive of Inl e \<Rightarrow> Inl e
     | Inr lookup_set \<Rightarrow>
       if operation = ''remove_matches'' then
         optimized_remove_matches df2_opt col2 lookup_set case_sensitive use_chunked
       else if operation = ''keep_matches'' then
         optimized_keep_matches df2_opt col2 lookup_set case_sensitive use_chunked
       else if operation = ''find_common'' then
         optimized_find_common df1_opt df2_opt col1 col2 lookup_set case_sensitive
       else if operation = ''find_unique'' then
         optimized_find_unique df1_opt df2_opt col1 col2 lookup_set case_sensitive
       else Inl (ValueError (''Unknown operation: '' @ operation)))"


section \<open>Operations of the comparison engine\<close>

text \<open>
  Each operation takes the engine, the two frames, the two column names, the case-sensitivity
  flag and whether a progress callback was supplied. A raised exception is the left summand of
  the result.
\<close>

definition remove_matches_direct ::
  "dataframe \<Rightarrow> dataframe \<Rightarrow> string \<Rightarrow> string \<Rightarrow> bool \<Rightarrow> dataframe" where
  "remove_matches_direct df1 df2 col1 col2 case_sensitive =
    select_rows (\<lambda>r. \<not> match_mask df1 df2 col1 col2 case_sensitive r) df2"

definition keep_only_matches_direct ::
  "dataframe \<Rightarrow> dataframe \<Rightarrow> string \<Rightarrow> string \<Rightarrow> bool \<Rightarrow> dataframe" where
  "keep_only_matches_direct df1 df2 col1 col2 case_sensitive =
    select_rows (match_mask df1 df2 col1 col2 case_sensitive) df2"

definition remove_matches ::
  "engine \<Rightarrow> dataframe \<Rightarrow> dataframe \<Rightarrow> string \<Rightarrow> string \<Rightarrow> bool \<Rightarrow> bool
     \<Rightarrow> error + OperationResult" where
  "remove_matches eng df1 df2 col1 col2 case_sensitive progress_callback =
    (let original_count = len df2 in
     if cancelled eng then Inl (InterruptedError ''Operation was cancelled'')
     else case validate_column_compatibility df1 df2 col1 col2 of (is_compatible, error_msg) \<Rightarrow>
     if \<not> is_compatible then Inl (ValueError (''Column compatibility error: '' @ error_msg))
     else case (if len df1 + len df2 > 10000 \<and> progress_callback
                then optimize_comparison_operation df1 df2 col1 col2 ''remove_matches'' case_sensitive
                else Inr (remove_matches_direct df1 df2 col1 col2 case_sensitive)) of
       Inl e \<Rightarrow> Inl e
     | Inr result_df \<Rightarrow>
         let result_count = len result_df in
         Inr \<lparr>result_data = result_df,
              original_count = original_count,
              result_count = result_count,
              operation_type = ''remove_matches'',
              summary = ''Removed '' @ str_nat (original_count - result_count)
                @ '' matching rows. Result contains '' @ str_nat result_count @ '' rows.''\<rparr>)"

definition keep_only_matches ::
  "engine \<Rightarrow> dataframe \<Rightarrow> dataframe \<Rightarrow> string \<Rightarrow> string \<Rightarrow> bool \<Rightarrow> bool
     \<Rightarrow> error + OperationResult" where
  "keep_only_matches eng df1 df2 col1 col2 case_sensitive progress_callback =
    (let original_count = len df2 in
     if cancelled eng then Inl (InterruptedError ''Operation was cancelled'')
     else case validate_column_compatibility df1 df2 col1 col2 of (is_compatible, error_msg) \<Rightarrow>
     if \<not> is_compatible then Inl (ValueError (''Column compatibility error: '' @ error_msg))
     else case (if len df1 + len df2 > 10000 \<and> progress_callback
                then optimize_comparison_operation df1 df2 col1 col2 ''keep_matches'' case_sensitive
                else Inr (keep_only_matches_direct df1 df2 col1 col2 case_sensitive)) of
       Inl e \<Rightarrow> Inl e
     | Inr result_df \<Rightarrow>
         let result_count = len result_df in
         Inr \<lparr>result_data = result_df,
              original_count = original_count,
              result_count = result_count,
              operation_type = ''keep_only_matches'',
              summary = ''Kept '' @ str_nat result_count @ '' matching rows from ''
                @ str_nat original_count @ '' total rows. Removed ''
                @ str_nat (original_count - result_count) @ '' non-matching rows.''\<rparr>)"

text \<open>
  The mask of \<open>find_common_values\<close> and \<open>find_unique_values\<close> on one frame: the value of the
  row, lower-cased when the comparison is case-insensitive and the column is string-like,
  looked up in a set of prepared values.
\<close>

definition value_mask :: "dataframe \<Rightarrow> string \<Rightarrow> cell set \<Rightarrow> bool \<Rightarrow> row \<Rightarrow> bool" where
  "value_mask df col vals case_sensitive r =
    (if case_sensitive then isin (col_value col r) vals
     else if string_like (col_dtype df col) then
       isin (lower_cell (col_dtype df col) (col_value col r)) vals
     else isin (col_value col r) vals)"

definition find_common_values ::
  "engine \<Rightarrow> dataframe \<Rightarrow> dataframe \<Rightarrow> string \<Rightarrow> string \<Rightarrow> bool \<Rightarrow> bool
     \<Rightarrow> error + OperationResult" where
  "find_common_values eng df1 df2 col1 col2 case_sensitive progress_callback =
    (let original_count = len df1 + len df2 in
     case validate_column_compatibility df1 df2 col1 col2 of (is_compatible, error_msg) \<Rightarrow>
     if \<not> is_compatible then Inl (ValueError (''Column compatibility error: '' @ error_msg))
     else case prepare_comparison_values df1 df2 col1 col2 case_sensitive of
       (values1, values2) \<Rightarrow>
         let common_values = values1 \<inter> values2;
             df1_common = select_rows (value_mask df1 col1 common_values case_sensitive) df1;
             df2_common = select_rows (value_mask df2 col2 common_values case_sensitive) df2;
             result_df = tagged_concat df1_common df2_common;
             result_count = len result_df in
         Inr \<lparr>result_data = result_df,
              original_count = original_count,
              result_count = result_count,
              operation_type = ''find_common_values'',
              summary = ''Found '' @ str_nat (card common_values)
                @ '' common values. Result contains '' @ str_nat result_count
                @ '' rows from both files.''\<rparr>)"

definition find_unique_values ::
  "engine \<Rightarrow> dataframe \<Rightarrow> dataframe \<Rightarrow> string \<Rightarrow> string \<Rightarrow> bool \<Rightarrow> bool
     \<Rightarrow> error + OperationResult" where
  "find_unique_values eng df1 df2 col1 col2 case_sensitive progress_callback =
    (let original_count = len df1 + len df2 in
     case validate_column_compatibility df1 df2 col1 col2 of (is_compatible, error_msg) \<Rightarrow>
     if \<not> is_compatible then Inl (ValueError (''Column compatibility error: '' @ error_msg))
     else case prepare_comparison_values df1 df2 col1 col2 case_sensitive of
       (values1, values2) \<Rightarrow>
         let unique_to_df1 = values1 - values2;
             unique_to_df2 = values2 - values1;
             df1_unique = select_rows (value_mask df1 col1 unique_to_df1 case_sensitive) df1;
             df2_unique = select_rows (value_mask df2 col2 unique_to_df2 case_sensitive) df2;
             result_df = tagged_concat df1_unique df2_unique;
             result_count = len result_df in
         Inr \<lparr>result_data = result_df,
              original_count = original_count,
              result_count = result_count,
              operation_type = ''find_unique_values'',
              summary = ''Found '' @ str_nat (card unique_to_df1)
                @ '' values unique to file1 and '' @ str_nat (card unique_to_df2)
                @ '' values unique to file2. Result contains '' @ str_nat result_count
                @ '' rows.''\<rparr>)"

text \<open>
  \<open>cancel_operation\<close> and \<open>reset_cancellation\<close>. The optimizer has neither method, so the
  engine's flag is all they change.
\<close>

definition cancel_operation :: "engine \<Rightarrow> engine" where
  "cancel_operation eng = eng\<lparr>cancelled := True\<rparr>"

definition reset_cancellation :: "engine \<Rightarrow> engine" where
  "reset_cancellation eng = eng\<lparr>cancelled := False\<rparr>"

text \<open>A frame with a single text column, for the worked examples.\<close>

definition text_frame :: "string \<Rightarrow> string list \<Rightarrow> dataframe" where
  "text_frame c vs = \<lparr>columns = [(c, Object)], rows = map (\<lambda>v. [(c, Str v)]) vs\<rparr>"

subsection \<open>Processing-time estimate\<close>

text \<open>
  \<open>PerformanceOptimizer.estimate_processing_time\<close>. The source computes with Python floats;
  the model computes the same expression over the reals.
\<close>

definition base_rates :: "(string \<times> real) list" where
  "base_rates = [(''remove_matches'', 100000), (''keep_matches'', 100000),
                 (''find_common'', 80000), (''find_unique'', 80000)]"

definition estimate_processing_time :: "dataframe \<Rightarrow> dataframe \<Rightarrow> string \<Rightarrow> real" where
  "estimate_processing_time df1 df2 operation =
    (let total_rows = len df1 + len df2;
         base_rate0 = (case map_of base_rates operation of None \<Rightarrow> 50000 | Some r \<Rightarrow> r);
         base_rate1 = (if total_rows > 100000 then base_rate0 * 0.8 else base_rate0);
         base_rate2 = (if total_rows > 500000 then base_rate1 * 0.6 else base_rate1);
         estimated_time = real total_rows / base_rate2
     in max 1.0 estimated_time)"

section \<open>Results panel\<close>

text \<open>
  The pagination state of the results panel and the widgets it drives: the rows shown in the
  table, the page caption and the states of the Previous, Next and Export buttons. The summary
  labels are not modelled.
\<close>

datatype button_state = Normal | Disabled

record results_panel =
  operation_result :: "OperationResult option"
  current_page :: int
  rows_per_page :: int
  total_pages :: int
  tree_rows :: "string list list"
  page_info :: string
  prev_button :: button_state
  next_button :: button_state
  export_button :: button_state

text \<open>The format \<open>{n:,}\<close>: decimal digits in groups of three separated by commas.\<close>

definition pad3 :: "nat \<Rightarrow> string" where
  "pad3 n = [digit_char (n div 100), digit_char (n div 10 mod 10), digit_char (n mod 10)]"

function format_thousands :: "nat \<Rightarrow> string" where
  "format_thousands n =
    (if n < 1000 then str_nat n else format_thousands (n div 1000) @ '','' @ pad3 (n mod 1000))"
  by pat_completeness auto
termination
  by (relation "measure id") auto

declare format_thousands.simps [simp del]

text \<open>\<open>df.empty\<close>: no rows or no columns.\<close>

definition empty_frame :: "dataframe \<Rightarrow> bool" where
  "empty_frame df = (rows df = [] \<or> columns df = [])"

text \<open>\<open>xs[start:stop]\<close> with Python's treatment of negative and out-of-range bounds.\<close>

definition py_slice :: "'a list \<Rightarrow> int \<Rightarrow> int \<Rightarrow> 'a list" where
  "py_slice xs start stop =
    (let n = int (length xs);
         clamp = (\<lambda>i. if i < 0 then max 0 (n + i) else min i n);
         s = clamp start; e = clamp stop
     in take (nat (e - s)) (drop (nat s) xs))"

definition render_cell :: "cell \<Rightarrow> string" where
  "render_cell v = (case v of Null \<Rightarrow> [] | Str s \<Rightarrow> s | Num i \<Rightarrow> str_int i)"

definition render_row :: "dataframe \<Rightarrow> row \<Rightarrow> string list" where
  "render_row df r = map (\<lambda>c. render_cell (col_value c r)) (column_names df)"

definition update_pagination_buttons :: "results_panel \<Rightarrow> results_panel" where
  "update_pagination_buttons p =
    p\<lparr>prev_button := (if current_page p > 0 then Normal else Disabled),
      next_button := (if current_page p < total_pages p - 1 then Normal else Disabled)\<rparr>"

definition update_table_display :: "results_panel \<Rightarrow> results_panel" where
  "update_table_display p =
    (case operation_result p of
       None \<Rightarrow> p
     | Some res \<Rightarrow>
        let df = result_data res; p1 = p\<lparr>tree_rows := []\<rparr> in
        if empty_frame df then update_pagination_buttons (p1\<lparr>page_info := ''No data to display''\<rparr>)
        else
          let start_idx = current_page p * rows_per_page p;
              end_idx = min (start_idx + rows_per_page p) (int (len df));
              page_data = py_slice (rows df) start_idx end_idx
          in update_pagination_buttons
               (p1\<lparr>tree_rows := map (render_row df) page_data,
                   page_info := ''Page '' @ str_int (current_page p + 1) @ '' of ''
                     @ str_int (total_pages p) @ '' (showing rows '' @ str_int (start_idx + 1)
                     @ ''-'' @ str_int end_idx @ '' of '' @ format_thousands (len df) @ '')''\<rparr>))"


definition previous_page :: "results_panel \<Rightarrow> results_panel" where
  "previous_page p =
    (if current_page p > 0 then update_table_display (p\<lparr>current_page := current_page p - 1\<rparr>)
     else p)"




text \<open>A frame whose single text column holds the same value in each of its n rows.\<close>

definition repeated_frame :: "string \<Rightarrow> string \<Rightarrow> nat \<Rightarrow> dataframe" where
  "repeated_frame c v n = \<lparr>columns = [(c, Object)], rows = replicate n [(c, Str v)]\<rparr>"

section \<open>Paths\<close>

text \<open>
  The services read the extension and the parent directory of a path through \<open>pathlib\<close>. For
  POSIX paths: the name of a path is its last component, where empty components and single
  dots do not count; the suffix is the part of the name from its last dot, provided that dot
  is neither the first nor the last character of the name.
\<close>

fun split_on :: "char \<Rightarrow> string \<Rightarrow> string list" where
  "split_on c [] = [[]]"
| "split_on c (x # xs) =
    (if x = c then [] # split_on c xs
     else (case split_on c xs of [] \<Rightarrow> [[x]] | y # ys \<Rightarrow> (x # y) # ys))"

definition path_parts :: "string \<Rightarrow> string list" where
  "path_parts p = filter (\<lambda>s. s \<noteq> [] \<and> s \<noteq> ''.'') (split_on CHR ''/'' p)"

definition path_name :: "string \<Rightarrow> string" where
  "path_name p = (case rev (path_parts p) of [] \<Rightarrow> [] | n # _ \<Rightarrow> n)"

definition suffix :: "string \<Rightarrow> string" where
  "suffix p =
    (let name = path_name p; ext = rev (takeWhile (\<lambda>c. c \<noteq> CHR ''.'') (rev name)) in
     if CHR ''.'' \<in> set name \<and> ext \<noteq> [] \<and> length ext + 1 < length name
     then CHR ''.'' # ext else [])"

fun join_with :: "string \<Rightarrow> string list \<Rightarrow> string" where
  "join_with sep [] = []"
| "join_with sep [s] = s"
| "join_with sep (s # t # ss) = s @ sep @ join_with sep (t # ss)"

definition parent :: "string \<Rightarrow> string" where
  "parent p =
    (let absolute = (take 1 p = ''/''); dirs = butlast (path_parts p) in
     if dirs = [] then (if absolute then ''/'' else ''.'')
     else (if absolute then ''/'' else []) @ join_with ''/'' dirs)"

section \<open>File parser service\<close>

text \<open>
  The outcome of a read by the tabular library: a decoding error, any other exception, or a
  table. The library's readers and the existence test of the file system are parameters of
  the parser; the CSV reader takes the path, the encoding and the \<open>on_bad_lines\<close> mode.
  \<open>SUPPORTED_EXTENSIONS\<close> is a Python set of strings, whose iteration order differs from
  one process to the next: the order in which the running process lists it is a parameter too.
\<close>

datatype read_outcome = DecodeFailure string | ReadFailure string | Table dataframe

record parser_env =
  path_exists :: "string \<Rightarrow> bool"
  read_csv :: "string \<Rightarrow> string \<Rightarrow> string \<Rightarrow> read_outcome"
  read_excel :: "string \<Rightarrow> read_outcome"
  extension_order :: "string list"

definition supported_extensions :: "string list" where
  "supported_extensions = [''.csv'', ''.xlsx'', ''.xls'']"

definition encoding_fallbacks :: "string list" where
  "encoding_fallbacks = [''utf-8'', ''latin-1'', ''cp1252'', ''iso-8859-1'']"

text \<open>
  \<open>validate_file_format\<close>. The message of the unsupported-format error lists the supported
  extensions in the iteration order of the set.
\<close>

definition validate_file_format :: "parser_env \<Rightarrow> string \<Rightarrow> error + bool" where
  "validate_file_format env file_path =
    (if \<not> path_exists env file_path then Inl (FileNotFoundError (''File not found: '' @ file_path))
     else let file_extension = str_lower (suffix file_path) in
       if file_extension \<notin> set supported_extensions
       then Inl (UnsupportedFileFormatError
              (''Unsupported file format: '' @ file_extension @ ''. Supported formats: ''
                 @ join_with '', '' (extension_order env)))
       else Inr True)"

text \<open>
  The loop of \<open>_parse_csv\<close> over the encodings, with the last decoding error seen so far. A
  decoding error moves on to the next encoding; an empty table and any other exception are
  re-raised as a parsing error by the handler of the loop body.
\<close>

fun try_encodings ::
  "(string \<Rightarrow> read_outcome) \<Rightarrow> string list \<Rightarrow> string option \<Rightarrow> error + dataframe" where
  "try_encodings reader [] last_error =
     Inl (FileParsingError (''Failed to parse CSV file with any supported encoding. Last error: ''
       @ (case last_error of None \<Rightarrow> ''None'' | Some e \<Rightarrow> e)))"
| "try_encodings reader (encoding # encodings) last_error =
     (case reader encoding of
        DecodeFailure e \<Rightarrow> try_encodings reader encodings (Some e)
      | ReadFailure e \<Rightarrow> Inl (FileParsingError (''Failed to parse CSV file: '' @ e))
      | Table df \<Rightarrow>
          if empty_frame df
          then Inl (FileParsingError
            (''Failed to parse CSV file: '' @ ''CSV file is empty or contains no valid data''))
          else Inr df)"

definition parse_csv :: "parser_env \<Rightarrow> string \<Rightarrow> error + dataframe" where
  "parse_csv env file_path =
    try_encodings (\<lambda>encoding. read_csv env file_path encoding ''skip'') encoding_fallbacks None"

definition parse_excel :: "parser_env \<Rightarrow> string \<Rightarrow> error + dataframe" where
  "parse_excel env file_path =
    (case read_excel env file_path of
       DecodeFailure e \<Rightarrow> Inl (FileParsingError (''Failed to parse Excel file: '' @ e))
     | ReadFailure e \<Rightarrow> Inl (FileParsingError (''Failed to parse Excel file: '' @ e))
     | Table df \<Rightarrow>
         if empty_frame df
         then Inl (FileParsingError
           (''Failed to parse Excel file: '' @ ''Excel file is empty or contains no valid data''))
         else Inr df)"

text \<open>
  \<open>parse_file\<close>. Both private parsers raise parsing errors only, which the handler of
  \<open>parse_file\<close> passes on unchanged.
\<close>

definition parse_file :: "parser_env \<Rightarrow> string \<Rightarrow> error + dataframe" where
  "parse_file env file_path =
    (case validate_file_format env file_path of
       Inl e \<Rightarrow> Inl e
     | Inr _ \<Rightarrow>
        let file_extension = str_lower (suffix file_path) in
        if file_extension = ''.csv'' then parse_csv env file_path
        else if file_extension \<in> set [''.xlsx'', ''.xls''] then parse_excel env file_path
        else Inl (UnsupportedFileFormatError (''Unsupported file format: '' @ file_extension)))"

text \<open>Readers for the worked examples: a file with a header line only, and a file that
  does not decode as UTF-8.\<close>

definition header_only_env :: parser_env where
  "header_only_env =
    \<lparr>path_exists = (\<lambda>p. True),
     read_csv = (\<lambda>p encoding mode. Table \<lparr>columns = [(''name'', Object)], rows = []\<rparr>),
     read_excel = (\<lambda>p. ReadFailure ''not a workbook''),
     extension_order = [''.xlsx'', ''.csv'', ''.xls'']\<rparr>"

definition cp1252_env :: parser_env where
  "cp1252_env =
    \<lparr>path_exists = (\<lambda>p. True),
     read_csv = (\<lambda>p encoding mode.
        if encoding = ''utf-8'' then DecodeFailure ''invalid start byte''
        else Table (text_frame ''name'' [''caf'', ''na''])),
     read_excel = (\<lambda>p. ReadFailure ''not a workbook''),
     extension_order = [''.xlsx'', ''.csv'', ''.xls'']\<rparr>"

definition undecodable_env :: parser_env where
  "undecodable_env =
    \<lparr>path_exists = (\<lambda>p. True),
     read_csv = (\<lambda>p encoding mode. DecodeFailure (''cannot decode as '' @ encoding)),
     read_excel = (\<lambda>p. ReadFailure ''not a workbook''),
     extension_order = [''.xlsx'', ''.csv'', ''.xls'']\<rparr>"

section \<open>Export service\<close>

text \<open>
  The file system as the export service sees it: which paths exist, which are writable
  (\<open>os.access\<close> with \<open>W_OK\<close>), how the creation of a directory and the writing of a file
  end, and the tables written so far. Creating a directory that exists is a no-op; a created
  directory exists and is writable.
\<close>

datatype os_outcome = Succeeds | Denied | Fails string

record filesystem =
  existing :: "string set"
  writable :: "string set"
  mkdir_outcome :: "string \<Rightarrow> os_outcome"
  write_outcome :: "string \<Rightarrow> os_outcome"
  written :: "(string \<times> dataframe) list"

text \<open>\<open>str(e)\<close> for the exceptions the export service wraps.\<close>

fun message_of :: "error \<Rightarrow> string" where
  "message_of (ValueError m) = m"
| "message_of (PermissionError m) = m"
| "message_of (OSError m) = m"
| "message_of (Exception m) = m"
| "message_of (InterruptedError m) = m"
| "message_of (KeyError m) = quoted m"
| "message_of ZeroDivisionError = ''division by zero''"
| "message_of (RuntimeError m) = m"
| "message_of (MemoryError m) = m"
| "message_of (FileNotFoundError m) = m"
| "message_of (UnicodeDecodeError m) = m"
| "message_of (FileParsingError m) = m"
| "message_of (UnsupportedFileFormatError m) = m"
| "message_of (InvalidFileFormatError m) = m"
| "message_of (ComparisonOperationError m) = m"
| "message_of (ExportError m) = m"
| "message_of (ValidationError m) = m"

text \<open>\<open>Path.mkdir(parents=True, exist_ok=True)\<close>.\<close>

definition mkdir :: "filesystem \<Rightarrow> string \<Rightarrow> (error + unit) \<times> filesystem" where
  "mkdir fs d =
    (if d \<in> existing fs then (Inr (), fs)
     else case mkdir_outcome fs d of
       Succeeds \<Rightarrow> (Inr (), fs\<lparr>existing := insert d (existing fs),
                                 writable := insert d (writable fs)\<rparr>)
     | Denied \<Rightarrow> (Inl (PermissionError (''Permission denied: '' @ d)), fs)
     | Fails m \<Rightarrow> (Inl (OSError m), fs))"

definition validate_file_path :: "filesystem \<Rightarrow> string \<Rightarrow> (error + bool) \<times> filesystem" where
  "validate_file_path fs file_path =
    (if file_path = [] then (Inl (ValueError ''File path must be a non-empty string''), fs)
     else let parent_dir = parent file_path in
       case (if parent_dir \<notin> existing fs then
               (case mkdir fs parent_dir of
                  (Inl (PermissionError m), fs') \<Rightarrow>
                    (Inl (PermissionError (''Cannot create directory: '' @ parent_dir)), fs')
                | r \<Rightarrow> r)
             else (Inr (), fs)) of
         (Inl e, fs1) \<Rightarrow> (Inl e, fs1)
       | (Inr _, fs1) \<Rightarrow>
           if parent_dir \<notin> writable fs1 then
             (Inl (PermissionError (''No write permission for directory: '' @ parent_dir)), fs1)
           else if file_path \<in> existing fs1 \<and> file_path \<notin> writable fs1 then
             (Inl (PermissionError (''No write permission for file: '' @ file_path)), fs1)
           else (Inr True, fs1))"

definition supported_formats :: "string list" where
  "supported_formats = [''csv'', ''excel'']"

definition validate_export_inputs ::
  "filesystem \<Rightarrow> dataframe \<Rightarrow> string \<Rightarrow> string \<Rightarrow> (error + unit) \<times> filesystem" where
  "validate_export_inputs fs data file_path format_type =
    (if empty_frame data then (Inl (ValueError ''Cannot export empty DataFrame''), fs)
     else if format_type \<notin> set supported_formats then
       (Inl (ValueError (''Unsupported format: '' @ format_type)), fs)
     else case validate_file_path fs file_path of
       (Inl e, fs1) \<Rightarrow> (Inl e, fs1)
     | (Inr _, fs1) \<Rightarrow>
         if format_type = ''csv'' \<and> str_lower (suffix file_path) \<notin> set [''.csv''] then
           (Inl (ValueError ''CSV format requires .csv file extension''), fs1)
         else if format_type = ''excel''
              \<and> str_lower (suffix file_path) \<notin> set [''.xlsx'', ''.xls''] then
           (Inl (ValueError ''Excel format requires .xlsx or .xls file extension''), fs1)
         else (Inr (), fs1))"

definition ensure_directory_exists :: "filesystem \<Rightarrow> string \<Rightarrow> (error + unit) \<times> filesystem" where
  "ensure_directory_exists fs file_path = mkdir fs (parent file_path)"

text \<open>\<open>DataFrame.to_csv\<close> and \<open>DataFrame.to_excel\<close>: the one place where the target is written.\<close>

definition write_table :: "filesystem \<Rightarrow> dataframe \<Rightarrow> string \<Rightarrow> (error + unit) \<times> filesystem" where
  "write_table fs data file_path =
    (case write_outcome fs file_path of
       Succeeds \<Rightarrow> (Inr (), fs\<lparr>existing := insert file_path (existing fs),
                                 written := written fs @ [(file_path, data)]\<rparr>)
     | Denied \<Rightarrow> (Inl (PermissionError (''Permission denied: '' @ file_path)), fs)
     | Fails m \<Rightarrow> (Inl (OSError m), fs))"

text \<open>
  The body shared by \<open>export_to_csv\<close> and \<open>export_to_excel\<close>: validate, create the directory,
  write; every exception is re-raised as a plain exception whose message starts with the
  given prefix.
\<close>

definition export_to ::
  "string \<Rightarrow> string \<Rightarrow> filesystem \<Rightarrow> dataframe \<Rightarrow> string \<Rightarrow> (error + bool) \<times> filesystem" where
  "export_to format_type prefix fs data file_path =
    (let wrap = (\<lambda>e. Inl (Exception (prefix @ message_of e))) in
     case validate_export_inputs fs data file_path format_type of
       (Inl e, fs1) \<Rightarrow> (wrap e, fs1)
     | (Inr _, fs1) \<Rightarrow>
     case ensure_directory_exists fs1 file_path of
       (Inl e, fs2) \<Rightarrow> (wrap e, fs2)
     | (Inr _, fs2) \<Rightarrow>
     case write_table fs2 data file_path of
       (Inl e, fs3) \<Rightarrow> (wrap e, fs3)
     | (Inr _, fs3) \<Rightarrow> (Inr True, fs3))"

definition export_to_csv ::
  "filesystem \<Rightarrow> dataframe \<Rightarrow> string \<Rightarrow> (error + bool) \<times> filesystem" where
  "export_to_csv = export_to ''csv'' ''Failed to export CSV file: ''"

definition export_to_excel ::
  "filesystem \<Rightarrow> dataframe \<Rightarrow> string \<Rightarrow> (error + bool) \<times> filesystem" where
  "export_to_excel = export_to ''excel'' ''Failed to export Excel file: ''"

text \<open>A file system with a writable directory \<open>out\<close> and no files, for the worked examples.\<close>

definition out_dir_fs :: filesystem where
  "out_dir_fs = \<lparr>existing = {''out''}, writable = {''out''}, mkdir_outcome = (\<lambda>d. Succeeds),
     write_outcome = (\<lambda>p. Succeeds), written = []\<rparr>"

section \<open>Workflow controller\<close>

text \<open>
  The controller's workflow state and what its navigation handlers read and write: the two
  file-information entries of \<open>workflow_data\<close>, the columns selected in the column-mapping
  panel (absent when the panel is missing or has no \<open>get_selected_columns\<close>), the operation of
  the configuration panel (absent when the panel is missing or has no
  \<open>get_operation_config\<close>; an absent inner value or an empty string is a configuration without
  operation), the main window's step indicator, and the dialogs and panels shown. Whether the
  panel of a state can be displayed, by itself or through a fallback panel created on demand,
  is a parameter. Panel accessors and message boxes are taken not to raise.
\<close>

datatype WorkflowState = FILE_SELECTION | COLUMN_MAPPING | OPERATION_CONFIG | RESULTS

fun state_value :: "WorkflowState \<Rightarrow> nat" where
  "state_value FILE_SELECTION = 0"
| "state_value COLUMN_MAPPING = 1"
| "state_value OPERATION_CONFIG = 2"
| "state_value RESULTS = 3"

text \<open>\<open>WorkflowState(n)\<close>, which raises for a number that is no state's value.\<close>

definition workflow_state :: "nat \<Rightarrow> error + WorkflowState" where
  "workflow_state n =
    (if n = 0 then Inr FILE_SELECTION else if n = 1 then Inr COLUMN_MAPPING
     else if n = 2 then Inr OPERATION_CONFIG else if n = 3 then Inr RESULTS
     else Inl (ValueError (str_nat n @ '' is not a valid WorkflowState'')))"

datatype ui_event =
    ShowError string string
  | PanelShown WorkflowState
  | PanelDisplayError WorkflowState

record controller =
  current_state :: WorkflowState
  file1_info :: "string option"
  file2_info :: "string option"
  selected_columns :: "(string \<times> string) option"
  operation_choice :: "string option option"
  current_step :: nat
  ui_events :: "ui_event list"

definition showerror :: "string \<Rightarrow> string \<Rightarrow> controller \<Rightarrow> controller" where
  "showerror title message c = c\<lparr>ui_events := ui_events c @ [ShowError title message]\<rparr>"

definition validate_file_selection :: "controller \<Rightarrow> bool \<times> controller" where
  "validate_file_selection c =
    (if file1_info c = None \<or> file2_info c = None then
       (False, showerror ''Validation Error'' ''Please select both files before proceeding.'' c)
     else (True, c))"

definition validate_column_mapping :: "controller \<Rightarrow> bool \<times> controller" where
  "validate_column_mapping c =
    (case selected_columns c of
       None \<Rightarrow> (True, c)
     | Some (file1_col, file2_col) \<Rightarrow>
         if file1_col = [] \<or> file2_col = [] then
           (False, showerror ''Validation Error'' ''Please select columns from both files.'' c)
         else (True, c))"

definition validate_operation_config :: "controller \<Rightarrow> bool \<times> controller" where
  "validate_operation_config c =
    (case operation_choice c of
       None \<Rightarrow> (True, c)
     | Some config \<Rightarrow>
         if config = None \<or> config = Some [] then
           (False, showerror ''Validation Error'' ''Please select a comparison operation.'' c)
         else (True, c))"

fun validate_current_step :: "controller \<Rightarrow> bool \<times> controller" where
  "validate_current_step c =
    (case current_state c of
       FILE_SELECTION \<Rightarrow> validate_file_selection c
     | COLUMN_MAPPING \<Rightarrow> validate_column_mapping c
     | OPERATION_CONFIG \<Rightarrow> validate_operation_config c
     | RESULTS \<Rightarrow> (True, c))"

definition validate_workflow_transition :: "controller \<Rightarrow> bool \<Rightarrow> bool \<times> controller" where
  "validate_workflow_transition c forward =
    (let current_value = state_value (current_state c) in
     if forward then
       (if current_value \<ge> 4 - 1 then (False, c)
        else case current_state c of
          FILE_SELECTION \<Rightarrow> validate_file_selection c
        | COLUMN_MAPPING \<Rightarrow> validate_column_mapping c
        | OPERATION_CONFIG \<Rightarrow> validate_operation_config c
        | RESULTS \<Rightarrow> (True, c))
     else (if current_value \<le> 0 then (False, c) else (True, c)))"

text \<open>
  \<open>_show_current_panel\<close> (the second definition in the class, which is the one in force) and
  \<open>_handle_panel_display_error\<close>: a panel that cannot be displayed sends the workflow back to
  the file selection, whose panel is then tried. Neither raises.
\<close>

definition show_current_panel :: "(WorkflowState \<Rightarrow> bool) \<Rightarrow> controller \<Rightarrow> controller" where
  "show_current_panel can_display c =
    (let s = current_state c in
     if can_display s then
       c\<lparr>current_step := state_value s, ui_events := ui_events c @ [PanelShown s]\<rparr>
     else
       let c1 = c\<lparr>ui_events := ui_events c @ [PanelDisplayError s]\<rparr> in
       if s \<noteq> FILE_SELECTION then
         (let c2 = c1\<lparr>current_state := FILE_SELECTION\<rparr> in
          if can_display FILE_SELECTION then
            c2\<lparr>current_step := 0, ui_events := ui_events c2 @ [PanelShown FILE_SELECTION]\<rparr>
          else c2\<lparr>ui_events := ui_events c2 @ [PanelDisplayError FILE_SELECTION]\<rparr>)
       else c1)"

definition update_workflow_state ::
  "(WorkflowState \<Rightarrow> bool) \<Rightarrow> controller \<Rightarrow> WorkflowState \<Rightarrow> controller" where
  "update_workflow_state can_display c new_state =
    show_current_panel can_display
      (c\<lparr>current_state := new_state, current_step := state_value new_state\<rparr>)"

text \<open>
  \<open>_handle_next_step\<close> and \<open>_handle_previous_step\<close>. Preparing the configuration panel and
  starting the comparison are parameters: whatever they do to the controller, the state is
  set afterwards.
\<close>

definition handle_next_step ::
  "(WorkflowState \<Rightarrow> bool) \<Rightarrow> (controller \<Rightarrow> controller) \<Rightarrow> (controller \<Rightarrow> controller)
     \<Rightarrow> controller \<Rightarrow> controller" where
  "handle_next_step can_display prepare_operation_config execute_comparison c =
    (case validate_current_step c of
       (False, c1) \<Rightarrow> c1
     | (True, c1) \<Rightarrow>
    (case validate_workflow_transition c1 True of
       (False, c2) \<Rightarrow> c2
     | (True, c2) \<Rightarrow>
         if state_value (current_state c2) < 4 - 1 then
           (case workflow_state (state_value (current_state c2) + 1) of
              Inl e \<Rightarrow> c2
            | Inr next_state \<Rightarrow>
                let c3 = (if current_state c2 = COLUMN_MAPPING then prepare_operation_config c2
                          else if current_state c2 = OPERATION_CONFIG then execute_comparison c2
                          else c2)
                in update_workflow_state can_display c3 next_state)
         else c2))"

definition handle_previous_step :: "(WorkflowState \<Rightarrow> bool) \<Rightarrow> controller \<Rightarrow> controller" where
  "handle_previous_step can_display c =
    (case validate_workflow_transition c False of
       (False, c1) \<Rightarrow> c1
     | (True, c1) \<Rightarrow>
         if state_value (current_state c1) > 0 then
           (case workflow_state (state_value (current_state c1) - 1) of
              Inl e \<Rightarrow> c1
            | Inr prev_state \<Rightarrow> update_workflow_state can_display c1 prev_state)
         else c1)"

text \<open>The controller as constructed, and with one or both files selected.\<close>

definition initial_controller :: controller where
  "initial_controller = \<lparr>current_state = FILE_SELECTION, file1_info = None, file2_info = None,
     selected_columns = Some ([], []), operation_choice = Some None, current_step = 0,
     ui_events = []\<rparr>"

definition one_file_controller :: controller where
  "one_file_controller = initial_controller\<lparr>file1_info := Some ''a.csv''\<rparr>"

definition two_files_controller :: controller where
  "two_files_controller =
     initial_controller\<lparr>file1_info := Some ''a.csv'', file2_info := Some ''b.csv''\<rparr>"

section \<open>Error handler\<close>

text \<open>
  The state of the error handler is its table of retry counts, its retry limit and the dialogs
  it has shown. The user's answers to the yes/no prompts and the outcomes of the successive
  calls of the retry callback are scripts consumed from the front; an operation whose script
  runs out while a dialog waits has no result. The translation of an error into the text of
  its dialog is a parameter; logging is not modelled.
\<close>

datatype severity = INFO | WARNING | ERROR | CRITICAL

datatype dialog =
    AskYesNo string string
  | ShowErrorBox string string
  | ShowWarningBox string string
  | ShowInfoBox string string

datatype callback_outcome = Returns bool | Raises error

record error_handler =
  retry_counts :: "string \<rightharpoonup> nat"
  max_retries :: nat
  dialogs :: "dialog list"

definition new_error_handler :: error_handler where
  "new_error_handler = \<lparr>retry_counts = Map.empty, max_retries = 3, dialogs = []\<rparr>"

fun categorize_error :: "error \<Rightarrow> severity" where
  "categorize_error (FileParsingError m) = ERROR"
| "categorize_error (InvalidFileFormatError m) = WARNING"
| "categorize_error (ComparisonOperationError m) = ERROR"
| "categorize_error (ExportError m) = ERROR"
| "categorize_error (ValidationError m) = WARNING"
| "categorize_error (MemoryError m) = CRITICAL"
| "categorize_error (PermissionError m) = ERROR"
| "categorize_error (FileNotFoundError m) = ERROR"
| "categorize_error e = ERROR"

definition newline :: string where
  "newline = [CHR 0x0A]"

text \<open>The texts of the dialogs: the title chosen from the severity, the message with its
  suggestions, the question of the retry prompt and the final message at the retry limit.\<close>

fun dialog_title :: "severity \<Rightarrow> string" where
  "dialog_title CRITICAL = ''Critical Error''"
| "dialog_title ERROR = ''Error''"
| "dialog_title WARNING = ''Warning''"
| "dialog_title INFO = ''Information''"

definition detailed_message :: "string \<Rightarrow> string \<Rightarrow> string" where
  "detailed_message message suggestions =
     message @ newline @ newline @ ''Suggestions:'' @ newline @ suggestions"

definition final_message :: "string \<Rightarrow> nat \<Rightarrow> string" where
  "final_message message limit =
     message @ newline @ newline @ ''Maximum retry attempts ('' @ str_nat limit @ '') reached.''"

definition retry_message :: "string \<Rightarrow> nat \<Rightarrow> nat \<Rightarrow> string" where
  "retry_message message retry_count limit =
     message @ newline @ newline @ ''Would you like to try again? (Attempt ''
       @ str_nat (retry_count + 1) @ '' of '' @ str_nat limit @ '')''"

fun standard_dialog :: "severity \<Rightarrow> string \<Rightarrow> string \<Rightarrow> dialog" where
  "standard_dialog CRITICAL t m = ShowErrorBox t m"
| "standard_dialog ERROR t m = ShowErrorBox t m"
| "standard_dialog WARNING t m = ShowWarningBox t m"
| "standard_dialog INFO t m = ShowInfoBox t m"

text \<open>
  The three functions call each other as in the source: \<open>handle_error\<close> shows the error
  dialog, which shows the retry dialog when a retry is allowed and a callback is given, which
  calls \<open>handle_error\<close> again, with the context \<open>Retry attempt n\<close>, when the callback raises.
  Each such call has consumed one outcome of the callback.
\<close>

function show_retry_dialog ::
    "(error \<Rightarrow> string \<Rightarrow> string \<times> string) \<Rightarrow> error_handler \<Rightarrow> string \<Rightarrow> string \<Rightarrow> string
      \<Rightarrow> bool list \<Rightarrow> callback_outcome list
      \<Rightarrow> (bool \<times> error_handler \<times> bool list \<times> callback_outcome list) option"
  and show_error_dialog ::
    "(error \<Rightarrow> string \<Rightarrow> string \<times> string) \<Rightarrow> error_handler \<Rightarrow> string \<Rightarrow> string \<Rightarrow> severity
      \<Rightarrow> bool \<Rightarrow> bool \<Rightarrow> string \<Rightarrow> bool list \<Rightarrow> callback_outcome list
      \<Rightarrow> (bool \<times> error_handler \<times> bool list \<times> callback_outcome list) option"
  and handle_error ::
    "(error \<Rightarrow> string \<Rightarrow> string \<times> string) \<Rightarrow> error_handler \<Rightarrow> error \<Rightarrow> string
      \<Rightarrow> bool \<Rightarrow> bool \<Rightarrow> bool \<Rightarrow> bool list \<Rightarrow> callback_outcome list
      \<Rightarrow> (bool \<times> error_handler \<times> bool list \<times> callback_outcome list) option"
where
  "show_retry_dialog describe h ttl message context answers outcomes =
    (let retry_count = (case retry_counts h context of None \<Rightarrow> 0 | Some n \<Rightarrow> n) in
     if retry_count \<ge> max_retries h then
       Some (False,
             h\<lparr>dialogs := dialogs h @ [ShowErrorBox ttl (final_message message (max_retries h))]\<rparr>,
             answers, outcomes)
     else
       let h1 = h\<lparr>dialogs := dialogs h @
                   [AskYesNo ttl (retry_message message retry_count (max_retries h))]\<rparr>
       in case answers of
            [] \<Rightarrow> None
          | result # answers' \<Rightarrow>
              if result then
                (let h2 = h1\<lparr>retry_counts := (retry_counts h1)(context \<mapsto> retry_count + 1)\<rparr> in
                 case outcomes of
                   [] \<Rightarrow> None
                 | Returns retry_result # outcomes' \<Rightarrow>
                     Some (retry_result,
                           (if retry_result
                            then h2\<lparr>retry_counts := (retry_counts h2)(context \<mapsto> 0)\<rparr>
                            else h2),
                           answers', outcomes')
                 | Raises retry_error # outcomes' \<Rightarrow>
                     handle_error describe h2 retry_error
                       (''Retry attempt '' @ str_nat (retry_count + 1))
                       True True True answers' outcomes')
              else
                Some (False, h1\<lparr>retry_counts := (retry_counts h1)(context \<mapsto> 0)\<rparr>,
                      answers', outcomes))"
| "show_error_dialog describe h message suggestions sev allow_retry has_callback context
      answers outcomes =
    (if allow_retry \<and> has_callback then
       show_retry_dialog describe h (dialog_title sev) (detailed_message message suggestions) context
         answers outcomes
     else
       Some (False,
             h\<lparr>dialogs := dialogs h @
                [standard_dialog sev (dialog_title sev) (detailed_message message suggestions)]\<rparr>,
             answers, outcomes))"
| "handle_error describe h err context show_dialog allow_retry has_callback answers outcomes =
    (let sev = categorize_error err in
     case describe err context of (user_message, suggestions) \<Rightarrow>
       if show_dialog then
         show_error_dialog describe h user_message suggestions sev allow_retry has_callback
           context answers outcomes
       else Some (True, h, answers, outcomes))"
  by pat_completeness auto

termination
  by (relation "measure (\<lambda>x. case x of
          Inl (d, h, t, m, c, a, outcomes) \<Rightarrow> 3 * length outcomes
        | Inr (Inl (d, h, m, s, sev, r, cb, c, a, outcomes)) \<Rightarrow> 3 * length outcomes + 1
        | Inr (Inr (d, h, e, c, sd, r, cb, a, outcomes)) \<Rightarrow> 3 * length outcomes + 2)")
     auto

declare show_retry_dialog.simps [simp del]
declare show_error_dialog.simps [simp del]
declare handle_error.simps [simp del]

text \<open>The number of retry prompts among the dialogs shown.\<close>

fun is_retry_prompt :: "dialog \<Rightarrow> bool" where
  "is_retry_prompt (AskYesNo t m) = True"
| "is_retry_prompt d = False"

definition retry_prompts :: "error_handler \<Rightarrow> nat" where
  "retry_prompts h = length (filter is_retry_prompt (dialogs h))"

text \<open>
  The same error handled \<open>n\<close> times in a row under the same context, with a retry allowed and
  a callback given each time.
\<close>

fun handle_repeatedly ::
    "(error \<Rightarrow> string \<Rightarrow> string \<times> string) \<Rightarrow> error \<Rightarrow> string \<Rightarrow> nat \<Rightarrow> error_handler
      \<Rightarrow> bool list \<Rightarrow> callback_outcome list
      \<Rightarrow> (error_handler \<times> bool list \<times> callback_outcome list) option" where
  "handle_repeatedly describe err context 0 h answers outcomes = Some (h, answers, outcomes)"
| "handle_repeatedly describe err context (Suc n) h answers outcomes =
     (case handle_error describe h err context True True True answers outcomes of
        None \<Rightarrow> None
      | Some (r, h', answers', outcomes') \<Rightarrow>
          handle_repeatedly describe err context n h' answers' outcomes')"

text \<open>A description that shows the message of the error and no suggestions, for the worked
  examples.\<close>

definition plain_description :: "error \<Rightarrow> string \<Rightarrow> string \<times> string" where
  "plain_description err context = (message_of err, [])"

section \<open>Properties of the tabular operations\<close>

lemma rows_set_dtype [simp]: "rows (set_dtype df c d) = rows df"
  by (simp add: set_dtype_def)

lemma column_names_set_dtype [simp]: "column_names (set_dtype df c d) = column_names df"
  by (induction "columns df") (auto simp: set_dtype_def column_names_def)

lemma len_set_dtype [simp]: "len (set_dtype df c d) = len df"
  by (simp add: len_def)

lemma series_set_dtype [simp]: "series (set_dtype df c d) k = series df k"
  by (simp add: series_def)

lemma optimize_dataframe_rows:
  "optimize_dataframe df cols = Inr df' \<Longrightarrow> rows df' = rows df \<and> column_names df' = column_names df"
  by (induction df cols rule: optimize_dataframe.induct) (auto split: if_splits)

lemma optimize_dataframe_series:
  "optimize_dataframe df cols = Inr df' \<Longrightarrow> series df' k = series df k"
  by (simp add: series_def optimize_dataframe_rows)

lemma optimize_dataframe_len:
  "optimize_dataframe df cols = Inr df' \<Longrightarrow> len df' = len df"
  by (simp add: len_def optimize_dataframe_rows)

lemma optimize_dataframe_ok:
  "0 < len df \<Longrightarrow> \<exists>df'. optimize_dataframe df cols = Inr df'"
  by (induction df cols rule: optimize_dataframe.induct) auto

lemma filter_chunks: "concat (map (filter P) (chunks n xs)) = (if n = 0 then [] else filter P xs)"
proof (induction n xs rule: chunks.induct)
  case (1 n xs)
  show ?case
  proof (cases "n = 0 \<or> xs = []")
    case True
    then show ?thesis by (auto simp: chunks.simps[of n xs])
  next
    case False
    then have "concat (map (filter P) (chunks n xs)) = filter P (take n xs) @ filter P (drop n xs)"
      using 1 by (simp add: chunks.simps[of n xs])
    also have "\<dots> = filter P xs"
      by (metis append_take_drop_id filter_append)
    finally show ?thesis using False by simp
  qed
qed

lemma chunks_nonempty: "0 < n \<Longrightarrow> xs \<noteq> [] \<Longrightarrow> chunks n xs \<noteq> []"
  by (simp add: chunks.simps[of n xs])

lemma union_columns_same:
  "css \<noteq> [] \<Longrightarrow> \<forall>cs' \<in> set css. cs' = cs \<Longrightarrow> union_columns css = cs"
proof (induction css)
  case Nil
  then show ?case by simp
next
  case (Cons a css)
  show ?case
  proof (cases "css = []")
    case True
    then show ?thesis using Cons.prems by simp
  next
    case False
    then have "union_columns css = cs" using Cons by simp
    moreover have "a = cs" using Cons.prems by simp
    moreover have "filter (\<lambda>(k, t). k \<notin> set (map fst cs)) cs = []"
      by (force simp: filter_empty_conv)
    ultimately show ?thesis by simp
  qed
qed

lemma rows_non_empties: "concat (map rows (non_empties dfs)) = concat (map rows dfs)"
proof -
  have "concat (map rows (filter (\<lambda>df. 0 < len df + length (columns df)) dfs))
      = concat (map rows dfs)"
    by (induction dfs) (auto simp: len_def)
  then show ?thesis by (simp add: non_empties_def Let_def)
qed

lemma non_empties_subset: "set (non_empties dfs) \<subseteq> set dfs"
  by (auto simp: non_empties_def Let_def)

lemma non_empties_nonempty: "dfs \<noteq> [] \<Longrightarrow> non_empties dfs \<noteq> []"
  by (auto simp: non_empties_def Let_def)

lemma pd_concat_same_columns:
  assumes "dfs \<noteq> []" and "\<forall>df \<in> set dfs. columns df = cs"
  shows "pd_concat dfs = \<lparr>columns = cs, rows = map (reindex (map fst cs)) (concat (map rows dfs))\<rparr>"
proof -
  let ?objs = "non_empties dfs"
  have ne: "?objs \<noteq> []" using assms(1) by (rule non_empties_nonempty)
  have all: "\<forall>df \<in> set ?objs. columns df = cs" using assms(2) non_empties_subset by blast
  have u: "union_columns (map columns ?objs) = cs"
    by (rule union_columns_same) (use ne all in auto)
  have m: "map (\<lambda>(c, t). (c, if list_all (\<lambda>df. c \<in> set (column_names df)) ?objs then t
                      else ensure_dtype_can_hold_na t)) cs = cs"
  proof (rule map_idI)
    fix x assume x: "x \<in> set cs"
    obtain c t where ct: "x = (c, t)" by (cases x)
    have "list_all (\<lambda>df. c \<in> set (column_names df)) ?objs"
      using all x ct by (force simp: list_all_iff column_names_def)
    then show "(case x of (c, t) \<Rightarrow>
        (c, if list_all (\<lambda>df. c \<in> set (column_names df)) ?objs then t
            else ensure_dtype_can_hold_na t)) = x"
      using ct by simp
  qed
  show ?thesis unfolding pd_concat_def Let_def u m rows_non_empties ..
qed

lemma process_chunks_select:
  assumes "\<And>rs. P (df\<lparr>rows := rs\<rparr>) = Q"
  shows "process_dataframe_chunks df (\<lambda>chunk. select_rows (P chunk) chunk) =
    (if len df \<le> chunk_size then df\<lparr>rows := filter Q (rows df)\<rparr>
     else \<lparr>columns = columns df, rows = map (reindex (column_names df)) (filter Q (rows df))\<rparr>)"
proof (cases "len df \<le> chunk_size")
  case True
  have "P df = Q" using assms[of "rows df"] by simp
  then show ?thesis using True by (simp add: process_dataframe_chunks_def select_rows_def)
next
  case False
  let ?fs = "map (\<lambda>chunk. select_rows (P chunk) chunk) (chunk_dataframe df)"
  have ne: "rows df \<noteq> []" using False by (auto simp: len_def)
  have fs: "?fs = map (\<lambda>rs. df\<lparr>rows := filter Q rs\<rparr>) (chunks chunk_size (rows df))"
    by (simp add: chunk_dataframe_def select_rows_def assms comp_def)
  have fne: "?fs \<noteq> []" unfolding fs using ne by (simp add: chunks_nonempty chunk_size_def)
  have cols: "\<forall>f \<in> set ?fs. columns f = columns df" unfolding fs by auto
  have rws: "concat (map rows ?fs) = filter Q (rows df)"
    unfolding fs using filter_chunks[of Q chunk_size "rows df"]
    by (simp add: comp_def chunk_size_def)
  have "process_dataframe_chunks df (\<lambda>chunk. select_rows (P chunk) chunk) = pd_concat ?fs"
    using False by (simp add: process_dataframe_chunks_def)
  also have "\<dots> = \<lparr>columns = columns df,
      rows = map (reindex (column_names df)) (filter Q (rows df))\<rparr>"
    unfolding pd_concat_same_columns[OF fne cols] rws column_names_def ..
  finally show ?thesis using False by simp
qed

text \<open>Two frames with different columns: the integer column that the second frame lacks
  becomes \<open>float64\<close>.\<close>

lemma concat_upcast_example:
  "pd_concat [\<lparr>columns = [(''id'', Int64), (''_source_file'', Object)],
                rows = [[(''id'', Num 1), (''_source_file'', Str ''file1'')]]\<rparr>,
              \<lparr>columns = [(''name'', Object), (''_source_file'', Object)],
                rows = [[(''name'', Str ''x''), (''_source_file'', Str ''file2'')]]\<rparr>]
   = \<lparr>columns = [(''id'', Float64), (''_source_file'', Object), (''name'', Object)],
      rows = [[(''id'', Num 1), (''_source_file'', Str ''file1''), (''name'', Null)],
              [(''id'', Null), (''_source_file'', Str ''file2''), (''name'', Str ''x'')]]\<rparr>"
  by (simp add: pd_concat_def non_empties_def Let_def len_def column_names_def reindex_def
      col_value_def)

lemma col_dtype_rows_update [simp]: "col_dtype (df\<lparr>rows := rs\<rparr>) c = col_dtype df c"
  by (simp add: col_dtype_def)

lemma optimized_mask_rows_update [simp]:
  "optimized_mask (df\<lparr>rows := rs\<rparr>) col lk cs = optimized_mask df col lk cs"
  by (rule ext) (simp add: optimized_mask_def)

lemma col_value_reindex:
  "col_value c (reindex names r) = (if c \<in> set names then col_value c r else Null)"
proof -
  have "map_of (map (\<lambda>k. (k, col_value k r)) names) c =
      (if c \<in> set names then Some (col_value c r) else None)"
    by (induction names) auto
  then show ?thesis by (simp add: reindex_def col_value_def[of c "map _ _"])
qed

lemma optimized_remove_matches_rows:
  assumes "optimized_remove_matches df col lk cs chunked = Inr res"
  shows "col \<in> set (column_names df) \<and> columns res = columns df \<and>
     (\<exists>g. rows res = map g (filter (\<lambda>r. \<not> optimized_mask df col lk cs r) (rows df)) \<and>
          (\<forall>r. col_value col (g r) = col_value col r) \<and>
          (\<not> (chunked \<and> chunk_size < len df) \<longrightarrow> g = id))"
proof -
  have c: "col \<in> set (column_names df)"
    using assms by (auto simp: optimized_remove_matches_def split: if_splits)
  let ?Q = "\<lambda>r. \<not> optimized_mask df col lk cs r"
  show ?thesis
  proof (cases "chunked \<and> chunk_size < len df")
    case False
    then have "res = df\<lparr>rows := filter ?Q (rows df)\<rparr>"
      using assms c process_chunks_select[of "\<lambda>chunk r. \<not> optimized_mask chunk col lk cs r" df ?Q]
      by (auto simp: optimized_remove_matches_def select_rows_def split: if_splits)
    then show ?thesis using c False by (intro conjI exI[of _ id]) auto
  next
    case True
    then have "res = \<lparr>columns = columns df,
        rows = map (reindex (column_names df)) (filter ?Q (rows df))\<rparr>"
      using assms c process_chunks_select[of "\<lambda>chunk r. \<not> optimized_mask chunk col lk cs r" df ?Q]
      by (auto simp: optimized_remove_matches_def split: if_splits)
    then show ?thesis using c True
      by (intro conjI exI[of _ "reindex (column_names df)"]) (auto simp: col_value_reindex)
  qed
qed

lemma lookup_values_case_sensitive:
  "lookup_values df col True = set (dropna (series df col))"
  by (simp add: lookup_values_def)

lemma optimize_remove_case_sensitive:
  assumes "optimize_comparison_operation df1 df2 col1 col2 ''remove_matches'' True = Inr res"
  shows "\<exists>g. rows res = map g (filter (\<lambda>r. col_value col2 r \<notin> set (dropna (series df1 col1))) (rows df2)) \<and>
          (\<forall>r. col_value col2 (g r) = col_value col2 r)"
proof -
  from assms obtain df1' df2' where
    o1: "optimize_dataframe df1 [col1] = Inr df1'" and
    o2: "optimize_dataframe df2 [col2] = Inr df2'" and
    r: "optimized_remove_matches df2' col2 (lookup_values df1' col1 True) True (len df1 + len df2 > 50000) = Inr res"
    by (auto simp: optimize_comparison_operation_def create_optimized_lookup_def Let_def
        split: sum.splits if_splits)
  have s1: "series df1' col1 = series df1 col1" using o1 by (rule optimize_dataframe_series)
  have r2: "rows df2' = rows df2" using optimize_dataframe_rows[OF o2] by simp
  from optimized_remove_matches_rows[OF r] show ?thesis
    by (auto simp: optimized_mask_def isin_def lookup_values_case_sensitive s1 r2)
qed

lemma get_type_group_Object: "get_type_group Object = ''string''"
  by (simp add: get_type_group_def numeric_types_def datetime_types_def)

lemma validate_text_frames:
  "vs1 \<noteq> [] \<Longrightarrow> vs2 \<noteq> [] \<Longrightarrow>
   validate_column_compatibility (text_frame c vs1) (text_frame c vs2) c c = (True, ''Columns are compatible'')"
  by (cases vs1; cases vs2)
     (simp_all add: validate_column_compatibility_def text_frame_def column_names_def len_def
        series_def col_value_def isna_def col_dtype_def)

lemma remove_matches_results:
  assumes "remove_matches eng df1 df2 col1 col2 cs cb = Inr res"
  shows "original_count res = len df2" "result_count res = len (result_data res)"
    "operation_type res = ''remove_matches''"
  using assms
  by (auto simp: remove_matches_def Let_def split: if_splits prod.splits sum.splits)

lemma remove_matches_path:
  assumes "remove_matches eng df1 df2 col1 col2 cs cb = Inr res"
  shows "\<not> cancelled eng \<and> fst (validate_column_compatibility df1 df2 col1 col2) \<and>
    (if len df1 + len df2 > 10000 \<and> cb
     then optimize_comparison_operation df1 df2 col1 col2 ''remove_matches'' cs = Inr (result_data res)
     else result_data res = remove_matches_direct df1 df2 col1 col2 cs)"
  using assms
  by (auto simp: remove_matches_def Let_def split: if_splits prod.splits sum.splits)

lemma dropna_map_filter:
  "dropna (map f (filter (\<lambda>r. f r \<notin> S) xs)) = filter (\<lambda>v. v \<notin> S) (dropna (map f xs))"
  by (induction xs) (auto simp: dropna_def)

lemma dropna_map_filter_dropna:
  "dropna (map f (filter (\<lambda>r. f r \<notin> set (dropna vs)) xs)) = filter (\<lambda>v. v \<notin> set vs) (dropna (map f xs))"
  by (induction xs) (auto simp: dropna_def isna_def)

lemma remove_matches_survivors:
  assumes "remove_matches eng df1 df2 col1 col2 True cb = Inr res"
  shows "dropna (series (result_data res) col2) =
     filter (\<lambda>v. v \<notin> set (series df1 col1)) (dropna (series df2 col2))"
proof (cases "len df1 + len df2 > 10000 \<and> cb")
  case False
  then have "result_data res = remove_matches_direct df1 df2 col1 col2 True"
    using remove_matches_path[OF assms] by simp
  then show ?thesis
    by (simp add: remove_matches_direct_def select_rows_def match_mask_def isin_def series_def
        dropna_map_filter)
next
  case True
  then have "optimize_comparison_operation df1 df2 col1 col2 ''remove_matches'' True = Inr (result_data res)"
    using remove_matches_path[OF assms] by simp
  from optimize_remove_case_sensitive[OF this] obtain g where
    g: "rows (result_data res) = map g (filter (\<lambda>r. col_value col2 r \<notin> set (dropna (series df1 col1))) (rows df2))"
       "\<forall>r. col_value col2 (g r) = col_value col2 r"
    by blast
  have "series (result_data res) col2 =
      map (col_value col2) (filter (\<lambda>r. col_value col2 r \<notin> set (dropna (series df1 col1))) (rows df2))"
    using g by (simp add: series_def comp_def)
  then show ?thesis by (simp add: dropna_map_filter_dropna series_def)
qed

lemma remove_matches_direct_ok:
  assumes "\<not> cancelled eng" "fst (validate_column_compatibility df1 df2 col1 col2)"
    "\<not> (len df1 + len df2 > 10000 \<and> cb)"
  shows "\<exists>res. remove_matches eng df1 df2 col1 col2 True cb = Inr res \<and>
     result_data res = df2\<lparr>rows := filter (\<lambda>r. col_value col2 r \<notin> set (series df1 col1)) (rows df2)\<rparr>"
  using assms
  by (auto simp: remove_matches_def Let_def remove_matches_direct_def select_rows_def
      match_mask_def isin_def split: prod.splits)

lemma str_nat_digit: "n < 10 \<Longrightarrow> str_nat n = [digit_char n]"
  by (simp add: str_nat.simps[of n])

lemma remove_matches_example: "remove_matches \<lparr>cancelled = False\<rparr> (text_frame ''key'' [''a'', ''b'', ''c''])
       (text_frame ''key'' [''a'', ''d'', ''c'', ''e'']) ''key'' ''key'' True False
     = Inr \<lparr>result_data = text_frame ''key'' [''d'', ''e''], original_count = 4, result_count = 2,
         operation_type = ''remove_matches'',
         summary = ''Removed 2 matching rows. Result contains 2 rows.''\<rparr>"
  unfolding remove_matches_def
  by (simp add: validate_text_frames)
     (simp add: text_frame_def len_def remove_matches_direct_def select_rows_def match_mask_def
        isin_def series_def col_value_def digit_char_def str_nat_digit)

lemma keep_only_matches_direct_ok:
  assumes "\<not> cancelled eng" "fst (validate_column_compatibility df1 df2 col1 col2)"
  shows "\<exists>res. keep_only_matches eng df1 df2 col1 col2 cs False = Inr res \<and>
     result_data res = keep_only_matches_direct df1 df2 col1 col2 cs \<and>
     result_count res = len (result_data res) \<and> original_count res = len df2"
  using assms
  by (auto simp: keep_only_matches_def Let_def split: prod.splits)

lemma remove_matches_nocb_ok:
  assumes "\<not> cancelled eng" "fst (validate_column_compatibility df1 df2 col1 col2)"
  shows "\<exists>res. remove_matches eng df1 df2 col1 col2 cs False = Inr res \<and>
     result_data res = remove_matches_direct df1 df2 col1 col2 cs \<and>
     result_count res = len (result_data res) \<and> original_count res = len df2"
  using assms
  by (auto simp: remove_matches_def Let_def split: prod.splits)

lemma direct_partition:
  "mset (rows (remove_matches_direct df1 df2 col1 col2 cs))
     + mset (rows (keep_only_matches_direct df1 df2 col1 col2 cs)) = mset (rows df2)"
  "set (rows (remove_matches_direct df1 df2 col1 col2 cs))
     \<inter> set (rows (keep_only_matches_direct df1 df2 col1 col2 cs)) = {}"
  "len (remove_matches_direct df1 df2 col1 col2 cs)
     + len (keep_only_matches_direct df1 df2 col1 col2 cs) = len df2"
  by (auto simp: remove_matches_direct_def keep_only_matches_direct_def select_rows_def len_def
      sum_length_filter_compl add.commute)

lemma find_common_ok:
  "fst (validate_column_compatibility df1 df2 col1 col2) \<Longrightarrow>
   \<exists>res. find_common_values eng df1 df2 col1 col2 cs cb = Inr res"
  by (auto simp: find_common_values_def Let_def split: prod.splits)

lemma find_unique_ok:
  "fst (validate_column_compatibility df1 df2 col1 col2) \<Longrightarrow>
   \<exists>res. find_unique_values eng df1 df2 col1 col2 cs cb = Inr res"
  by (auto simp: find_unique_values_def Let_def split: prod.splits)

lemma find_common_not_interrupted:
  "find_common_values eng df1 df2 col1 col2 cs cb \<noteq> Inl (InterruptedError msg)"
  by (auto simp: find_common_values_def Let_def split: prod.splits)

lemma find_unique_not_interrupted:
  "find_unique_values eng df1 df2 col1 col2 cs cb \<noteq> Inl (InterruptedError msg)"
  by (auto simp: find_unique_values_def Let_def split: prod.splits)

lemma find_ignore_engine:
  "find_common_values eng df1 df2 col1 col2 cs cb = find_common_values eng' df1 df2 col1 col2 cs cb"
  "find_unique_values eng df1 df2 col1 col2 cs cb = find_unique_values eng' df1 df2 col1 col2 cs cb"
  by (simp_all add: find_common_values_def find_unique_values_def)

lemma cancelled_raises:
  "remove_matches (cancel_operation eng) df1 df2 col1 col2 cs cb = Inl (InterruptedError ''Operation was cancelled'')"
  "keep_only_matches (cancel_operation eng) df1 df2 col1 col2 cs cb = Inl (InterruptedError ''Operation was cancelled'')"
  by (simp_all add: remove_matches_def keep_only_matches_def cancel_operation_def)

section \<open>Remove-matches in case-sensitive mode and on the direct path\<close>

text \<open>
  A case-sensitive \<open>remove_matches\<close> on the direct path succeeds whenever the engine is not
  cancelled and the columns are compatible, and returns the rows of the second frame whose
  value is not among the first frame's values; on every path a returned case-sensitive result
  reports \<open>original_count = len df2\<close>, its \<open>result_count\<close> is its number of rows, and the
  values it keeps in the comparison column are those of the second frame that do not occur in
  the first frame's column.
\<close>

lemma remove_matches_case_sensitive:
  "(\<not> cancelled eng \<and> fst (validate_column_compatibility df1 df2 col1 col2)
        \<and> \<not> (len df1 + len df2 > 10000 \<and> progress_callback) \<longrightarrow>
      (\<exists>res. remove_matches eng df1 df2 col1 col2 True progress_callback = Inr res \<and>
         result_data res =
           df2\<lparr>rows := filter (\<lambda>r. col_value col2 r \<notin> set (series df1 col1)) (rows df2)\<rparr>))
   \<and> (\<forall>res. remove_matches eng df1 df2 col1 col2 True progress_callback = Inr res \<longrightarrow>
        original_count res = len df2 \<and> result_count res = len (result_data res) \<and>
        dropna (series (result_data res) col2) =
          filter (\<lambda>v. v \<notin> set (series df1 col1)) (dropna (series df2 col2)))"
  using remove_matches_direct_ok[of eng df1 df2 col1 col2 progress_callback]
    remove_matches_results(1,2)[of eng df1 df2 col1 col2 True progress_callback]
    remove_matches_survivors[of eng df1 df2 col1 col2 progress_callback]
  by blast

text \<open>
  On the direct path, with either setting of the case-sensitivity flag, every row that is kept
  is a row of the second frame, and its value, when it is not null, is not among the first
  frame's values.
\<close>

lemma direct_path_removes_every_match:
  assumes "r \<in> set (rows (remove_matches_direct df1 df2 col1 col2 cs))"
    and "col_value col2 r \<noteq> Null"
  shows "r \<in> set (rows df2) \<and> col_value col2 r \<notin> set (series df1 col1)"
  using assms
  by (auto simp: remove_matches_direct_def select_rows_def match_mask_def isin_def
      lower_cell_def py_str_def split: if_splits cell.splits)

section \<open>Remove and keep partition the second frame\<close>

text \<open>
  C9. Without a progress callback (the direct path), for an engine that is not cancelled and
  compatible comparison columns, \<open>remove_matches\<close> and \<open>keep_only_matches\<close> with the same
  case-sensitivity flag both return, and their results partition the rows of the second
  frame: together they hold every row of df2 exactly once, no row is in both, and the two
  result counts add up to \<open>len df2\<close>.
\<close>

theorem remove_keep_partition:
  "\<not> cancelled eng \<and> fst (validate_column_compatibility df1 df2 col1 col2) \<longrightarrow>
   (\<exists>removed kept.
      remove_matches eng df1 df2 col1 col2 case_sensitive False = Inr removed \<and>
      keep_only_matches eng df1 df2 col1 col2 case_sensitive False = Inr kept \<and>
      mset (rows (result_data removed)) + mset (rows (result_data kept)) = mset (rows df2) \<and>
      set (rows (result_data removed)) \<inter> set (rows (result_data kept)) = {} \<and>
      result_count removed + result_count kept = len df2)"
proof (intro impI, elim conjE)
  assume a: "\<not> cancelled eng" "fst (validate_column_compatibility df1 df2 col1 col2)"
  from remove_matches_nocb_ok[OF a, of case_sensitive] obtain removed where
    r: "remove_matches eng df1 df2 col1 col2 case_sensitive False = Inr removed"
       "result_data removed = remove_matches_direct df1 df2 col1 col2 case_sensitive"
       "result_count removed = len (result_data removed)" by blast
  from keep_only_matches_direct_ok[OF a, of case_sensitive] obtain kept where
    k: "keep_only_matches eng df1 df2 col1 col2 case_sensitive False = Inr kept"
       "result_data kept = keep_only_matches_direct df1 df2 col1 col2 case_sensitive"
       "result_count kept = len (result_data kept)" by blast
  show "\<exists>removed kept.
      remove_matches eng df1 df2 col1 col2 case_sensitive False = Inr removed \<and>
      keep_only_matches eng df1 df2 col1 col2 case_sensitive False = Inr kept \<and>
      mset (rows (result_data removed)) + mset (rows (result_data kept)) = mset (rows df2) \<and>
      set (rows (result_data removed)) \<inter> set (rows (result_data kept)) = {} \<and>
      result_count removed + result_count kept = len df2"
    using r k direct_partition[of df1 df2 col1 col2 case_sensitive] by auto
qed

theorem remove_keep_partition_witness:
  "\<not> cancelled \<lparr>cancelled = False\<rparr>
   \<and> fst (validate_column_compatibility (text_frame ''key'' [''a'', ''b'', ''c''])
        (text_frame ''key'' [''a'', ''d'', ''c'', ''e'']) ''key'' ''key'')
   \<and> (\<exists>removed kept.
      remove_matches \<lparr>cancelled = False\<rparr> (text_frame ''key'' [''a'', ''b'', ''c''])
        (text_frame ''key'' [''a'', ''d'', ''c'', ''e'']) ''key'' ''key'' True False = Inr removed \<and>
      keep_only_matches \<lparr>cancelled = False\<rparr> (text_frame ''key'' [''a'', ''b'', ''c''])
        (text_frame ''key'' [''a'', ''d'', ''c'', ''e'']) ''key'' ''key'' True False = Inr kept \<and>
      result_count removed + result_count kept = 4)"
proof -
  let ?e = "\<lparr>cancelled = False\<rparr>"
  let ?a = "text_frame ''key'' [''a'', ''b'', ''c'']"
  let ?b = "text_frame ''key'' [''a'', ''d'', ''c'', ''e'']"
  have h1: "\<not> cancelled ?e" by simp
  have h2: "fst (validate_column_compatibility ?a ?b ''key'' ''key'')"
    by (simp add: validate_text_frames)
  have l: "len ?b = 4" by (simp add: len_def text_frame_def)
  from remove_keep_partition[of ?e ?a ?b "''key''" "''key''" True] h1 h2 l
  show ?thesis by auto
qed

section \<open>Cancellation is not observed by the find operations\<close>

text \<open>
  C10. \<open>find_common_values\<close> and \<open>find_unique_values\<close> never read the cancellation flag:
  after \<open>cancel_operation\<close> they return what they return for the engine as it was, never an
  Interrupted signal, and on compatible columns they return an operation result; whereas
  \<open>remove_matches\<close> and \<open>keep_only_matches\<close> raise the Interrupted signal at entry.
\<close>

theorem find_operations_ignore_cancellation:
  "find_common_values (cancel_operation eng) df1 df2 col1 col2 cs cb
      = find_common_values eng df1 df2 col1 col2 cs cb
   \<and> find_unique_values (cancel_operation eng) df1 df2 col1 col2 cs cb
      = find_unique_values eng df1 df2 col1 col2 cs cb
   \<and> find_common_values (cancel_operation eng) df1 df2 col1 col2 cs cb \<noteq> Inl (InterruptedError msg)
   \<and> find_unique_values (cancel_operation eng) df1 df2 col1 col2 cs cb \<noteq> Inl (InterruptedError msg)
   \<and> (fst (validate_column_compatibility df1 df2 col1 col2) \<longrightarrow>
        (\<exists>res. find_common_values (cancel_operation eng) df1 df2 col1 col2 cs cb = Inr res) \<and>
        (\<exists>res. find_unique_values (cancel_operation eng) df1 df2 col1 col2 cs cb = Inr res))
   \<and> remove_matches (cancel_operation eng) df1 df2 col1 col2 cs cb
      = Inl (InterruptedError ''Operation was cancelled'')
   \<and> keep_only_matches (cancel_operation eng) df1 df2 col1 col2 cs cb
      = Inl (InterruptedError ''Operation was cancelled'')"
  using find_ignore_engine[of "cancel_operation eng" df1 df2 col1 col2 cs cb eng]
    find_common_not_interrupted[of "cancel_operation eng" df1 df2 col1 col2 cs cb msg]
    find_unique_not_interrupted[of "cancel_operation eng" df1 df2 col1 col2 cs cb msg]
    find_common_ok[of df1 df2 col1 col2 "cancel_operation eng" cs cb]
    find_unique_ok[of df1 df2 col1 col2 "cancel_operation eng" cs cb]
    cancelled_raises[of eng df1 df2 col1 col2 cs cb]
  by (intro conjI impI) assumption+

theorem find_operations_ignore_cancellation_witness:
  "cancelled (cancel_operation \<lparr>cancelled = False\<rparr>)
   \<and> fst (validate_column_compatibility (text_frame ''key'' [''a'', ''b'', ''c''])
        (text_frame ''key'' [''a'', ''d'', ''c'', ''e'']) ''key'' ''key'')
   \<and> (\<exists>res. find_common_values (cancel_operation \<lparr>cancelled = False\<rparr>)
         (text_frame ''key'' [''a'', ''b'', ''c'']) (text_frame ''key'' [''a'', ''d'', ''c'', ''e''])
         ''key'' ''key'' True False = Inr res)
   \<and> (\<exists>res. find_unique_values (cancel_operation \<lparr>cancelled = False\<rparr>)
         (text_frame ''key'' [''a'', ''b'', ''c'']) (text_frame ''key'' [''a'', ''d'', ''c'', ''e''])
         ''key'' ''key'' True False = Inr res)"
proof -
  let ?a = "text_frame ''key'' [''a'', ''b'', ''c'']"
  let ?b = "text_frame ''key'' [''a'', ''d'', ''c'', ''e'']"
  have h: "fst (validate_column_compatibility ?a ?b ''key'' ''key'')"
    by (simp add: validate_text_frames)
  have c: "cancelled (cancel_operation \<lparr>cancelled = False\<rparr>)"
    by (simp add: cancel_operation_def)
  from find_operations_ignore_cancellation[of "\<lparr>cancelled = False\<rparr>" ?a ?b "''key''" "''key''"
      True False "[]"] h c
  show ?thesis by blast
qed

section \<open>Processing-time estimate\<close>

text \<open>
  C7. \<open>estimate_processing_time\<close> returns the larger of 1 and the total number of rows divided
  by the rate, where the rate is 100000 rows per second for \<open>remove_matches\<close> and
  \<open>keep_matches\<close>, 80000 for \<open>find_common\<close> and \<open>find_unique\<close> and 50000 for any other name,
  multiplied by 0.8 above 100000 rows in total and by a further 0.6 above 500000.
\<close>

theorem estimate_processing_time_formula:
  "estimate_processing_time df1 df2 operation =
   max 1 (real (len df1 + len df2) /
     ((if operation = ''remove_matches'' \<or> operation = ''keep_matches'' then 100000
       else if operation = ''find_common'' \<or> operation = ''find_unique'' then 80000
       else 50000)
      * (if len df1 + len df2 > 100000 then 0.8 else 1)
      * (if len df1 + len df2 > 500000 then 0.6 else 1)))"
  by (simp add: estimate_processing_time_def base_rates_def Let_def)

section \<open>Pagination of the results panel\<close>























section \<open>Optimized path against direct path\<close>

lemma repeated_frame_simps:
  "len (repeated_frame c v n) = n"
  "column_names (repeated_frame c v n) = [c]"
  "col_dtype (repeated_frame c v n) c = Object"
  "series (repeated_frame c v n) c = replicate n (Str v)"
  by (simp_all add: repeated_frame_def len_def column_names_def col_dtype_def series_def
      col_value_def)

lemma nunique_replicate: "0 < n \<Longrightarrow> nunique (replicate n (Str v)) = 1"
  by (simp add: nunique_def dropna_def isna_def)

lemma optimize_repeated_frame:
  "3 \<le> n \<Longrightarrow> optimize_dataframe (repeated_frame c v n) [c]
     = Inr (set_dtype (repeated_frame c v n) c Category)"
  by (simp add: repeated_frame_simps nunique_replicate)

lemma category_frame_simps:
  "column_names (set_dtype (repeated_frame c v n) c Category) = [c]"
  "col_dtype (set_dtype (repeated_frame c v n) c Category) c = Category"
  "series (set_dtype (repeated_frame c v n) c Category) c = replicate n (Str v)"
  "rows (set_dtype (repeated_frame c v n) c Category) = replicate n [(c, Str v)]"
  "len (set_dtype (repeated_frame c v n) c Category) = n"
  by (simp_all add: repeated_frame_def set_dtype_def column_names_def col_dtype_def series_def
      col_value_def len_def)

lemma validate_repeated_frames:
  "0 < n \<Longrightarrow> 0 < m \<Longrightarrow>
   validate_column_compatibility (repeated_frame c v n) (repeated_frame c w m) c c
     = (True, ''Columns are compatible'')"
  by (simp add: validate_column_compatibility_def repeated_frame_simps list_all_iff isna_def)

lemma lower_A: "lower_cell Object (Str ''A'') = Str ''a''" "lower_cell Object (Str ''a'') = Str ''a''"
  by (simp_all add: lower_cell_def py_str_def str_lower_def lower_char_def upper_letters_def lower_letters_def)

lemma direct_example:
  "remove_matches_direct (repeated_frame ''key'' ''A'' 5001) (repeated_frame ''key'' ''a'' 5000)
      ''key'' ''key'' False = \<lparr>columns = [(''key'', Object)], rows = []\<rparr>"
  by (simp add: remove_matches_direct_def select_rows_def match_mask_def repeated_frame_simps
      string_like_def isin_def lower_A)
     (simp add: repeated_frame_def col_value_def lower_A)

lemma optimized_example:
  "optimize_comparison_operation (repeated_frame ''key'' ''A'' 5001)
      (repeated_frame ''key'' ''a'' 5000) ''key'' ''key'' ''remove_matches'' False
    = Inr \<lparr>columns = [(''key'', Category)], rows = replicate 5000 [(''key'', Str ''a'')]\<rparr>"
  by (simp add: optimize_comparison_operation_def Let_def repeated_frame_simps
      optimize_repeated_frame create_optimized_lookup_def category_frame_simps lookup_values_def
      optimized_remove_matches_def select_rows_def optimized_mask_def isin_def dropna_def isna_def
      del: optimize_dataframe.simps)
     (simp add: repeated_frame_def set_dtype_def col_value_def)

text \<open>
  C2. The optimized path is required to return the rows the direct path returns. It does not:
  the optimizer turns an object column with fewer than half of its values distinct into a
  categorical one, and then its tests \<open>dtype == 'object'\<close> fail, so neither the lookup set
  nor the compared values are lower-cased and a case-insensitive comparison is carried out
  case-sensitively. For a first frame of 5001 rows with the value A and a second frame of 5000
  rows with the value a, a case-insensitive \<open>remove_matches\<close> with a progress callback
  (optimized path) keeps all 5000 rows, and without one (direct path) keeps none.
\<close>

theorem optimized_path_is_case_sensitive_on_repeated_values:
  "(\<exists>res. remove_matches \<lparr>cancelled = False\<rparr> (repeated_frame ''key'' ''A'' 5001)
        (repeated_frame ''key'' ''a'' 5000) ''key'' ''key'' False True = Inr res
      \<and> rows (result_data res) = replicate 5000 [(''key'', Str ''a'')]
      \<and> result_count res = 5000)
   \<and> (\<exists>res. remove_matches \<lparr>cancelled = False\<rparr> (repeated_frame ''key'' ''A'' 5001)
        (repeated_frame ''key'' ''a'' 5000) ''key'' ''key'' False False = Inr res
      \<and> rows (result_data res) = []
      \<and> result_count res = 0)
   \<and> optimize_comparison_operation (repeated_frame ''key'' ''A'' 5001)
        (repeated_frame ''key'' ''a'' 5000) ''key'' ''key'' ''remove_matches'' False
      = Inr \<lparr>columns = [(''key'', Category)], rows = replicate 5000 [(''key'', Str ''a'')]\<rparr>
   \<and> remove_matches_direct (repeated_frame ''key'' ''A'' 5001)
        (repeated_frame ''key'' ''a'' 5000) ''key'' ''key'' False
      = \<lparr>columns = [(''key'', Object)], rows = []\<rparr>"
proof -
  let ?a = "repeated_frame ''key'' ''A'' 5001"
  let ?b = "repeated_frame ''key'' ''a'' 5000"
  have v: "validate_column_compatibility ?a ?b ''key'' ''key'' = (True, ''Columns are compatible'')"
    by (rule validate_repeated_frames) simp_all
  have big: "len ?a + len ?b > 10000" by (simp add: repeated_frame_simps)
  have 1: "\<exists>res. remove_matches \<lparr>cancelled = False\<rparr> ?a ?b ''key'' ''key'' False True = Inr res
      \<and> rows (result_data res) = replicate 5000 [(''key'', Str ''a'')]
      \<and> result_count res = 5000"
    using big by (simp add: remove_matches_def v optimized_example Let_def len_def)
  have 2: "\<exists>res. remove_matches \<lparr>cancelled = False\<rparr> ?a ?b ''key'' ''key'' False False = Inr res
      \<and> rows (result_data res) = [] \<and> result_count res = 0"
    by (simp add: remove_matches_def v direct_example Let_def len_def)
  show ?thesis using 1 2 optimized_example direct_example by blast
qed

section \<open>Remove-matches on the optimized path\<close>

lemma text_frame_two_simps:
  "len (text_frame c [v, w]) = 2"
  "column_names (text_frame c [v, w]) = [c]"
  "col_dtype (text_frame c [v, w]) c = Object"
  "series (text_frame c [v, w]) c = [Str v, Str w]"
  by (simp_all add: text_frame_def len_def column_names_def col_dtype_def series_def
      col_value_def)

lemma validate_repeated_text:
  "0 < n \<Longrightarrow>
   validate_column_compatibility (repeated_frame c v n) (text_frame c [x, y]) c c
     = (True, ''Columns are compatible'')"
  by (simp add: validate_column_compatibility_def repeated_frame_simps text_frame_two_simps
      list_all_iff isna_def)

lemma optimize_two_distinct:
  "v \<noteq> w \<Longrightarrow> optimize_dataframe (text_frame c [v, w]) [c] = Inr (text_frame c [v, w])"
  by (simp add: text_frame_two_simps nunique_def dropna_def isna_def)

lemma lower_b: "lower_cell Object (Str ''b'') = Str ''b''"
  by (simp add: lower_cell_def py_str_def str_lower_def lower_char_def upper_letters_def lower_letters_def)

lemma optimized_keeps_matching_row:
  "optimize_comparison_operation (repeated_frame ''key'' ''A'' 10000)
      (text_frame ''key'' [''A'', ''b'']) ''key'' ''key'' ''remove_matches'' False
    = Inr (text_frame ''key'' [''A'', ''b''])"
  by (simp add: optimize_comparison_operation_def Let_def repeated_frame_simps
      optimize_repeated_frame optimize_two_distinct create_optimized_lookup_def
      category_frame_simps lookup_values_def text_frame_two_simps
      optimized_remove_matches_def select_rows_def optimized_mask_def isin_def dropna_def
      isna_def lower_A lower_b
      del: optimize_dataframe.simps)
     (simp add: text_frame_def col_value_def lower_A lower_b)

lemma direct_removes_matching_row:
  "remove_matches_direct (repeated_frame ''key'' ''A'' 10000)
      (text_frame ''key'' [''A'', ''b'']) ''key'' ''key'' False = text_frame ''key'' [''b'']"
  by (simp add: remove_matches_direct_def select_rows_def match_mask_def repeated_frame_simps
      text_frame_two_simps string_like_def isin_def lower_A)
     (simp add: text_frame_def col_value_def lower_A lower_b)

text \<open>
  C1. With file1 values a, b, c and file2 values a, d, c, e in the comparison column, a
  case-sensitive \<open>remove_matches\<close> returns exactly the rows with values d and e, in that
  order, with \<open>result_count = 2\<close> and \<open>original_count = 4\<close>. In general \<open>remove_matches\<close> is to
  remove from the second frame every row whose value appears among the first frame's values.
  On the optimized path it does not: for a first frame of 10000 rows with the value A and a
  second frame with the values A and b, a case-insensitive \<open>remove_matches\<close> with a progress
  callback keeps the row with the value A, although A is among the first frame's values, and
  reports that it removed no row; without a callback (direct path) the same call removes that
  row. The optimizer has made the first frame's column categorical, so the lookup set is not
  lower-cased, while the second frame's column, still of dtype object, is.
\<close>

theorem remove_matches_keeps_matching_row_on_optimized_path:
  "remove_matches \<lparr>cancelled = False\<rparr> (text_frame ''key'' [''a'', ''b'', ''c''])
       (text_frame ''key'' [''a'', ''d'', ''c'', ''e'']) ''key'' ''key'' True False
     = Inr \<lparr>result_data = text_frame ''key'' [''d'', ''e''], original_count = 4, result_count = 2,
         operation_type = ''remove_matches'',
         summary = ''Removed 2 matching rows. Result contains 2 rows.''\<rparr>
   \<and> Str ''A'' \<in> set (series (repeated_frame ''key'' ''A'' 10000) ''key'')
   \<and> remove_matches \<lparr>cancelled = False\<rparr> (repeated_frame ''key'' ''A'' 10000)
       (text_frame ''key'' [''A'', ''b'']) ''key'' ''key'' False True
     = Inr \<lparr>result_data = text_frame ''key'' [''A'', ''b''], original_count = 2, result_count = 2,
         operation_type = ''remove_matches'',
         summary = ''Removed 0 matching rows. Result contains 2 rows.''\<rparr>
   \<and> remove_matches \<lparr>cancelled = False\<rparr> (repeated_frame ''key'' ''A'' 10000)
       (text_frame ''key'' [''A'', ''b'']) ''key'' ''key'' False False
     = Inr \<lparr>result_data = text_frame ''key'' [''b''], original_count = 2, result_count = 1,
         operation_type = ''remove_matches'',
         summary = ''Removed 1 matching rows. Result contains 1 rows.''\<rparr>"
proof -
  let ?a = "repeated_frame ''key'' ''A'' 10000"
  let ?b = "text_frame ''key'' [''A'', ''b'']"
  have v: "validate_column_compatibility ?a ?b ''key'' ''key'' = (True, ''Columns are compatible'')"
    by (rule validate_repeated_text) simp
  have big: "len ?a + len ?b > 10000" by (simp add: repeated_frame_simps text_frame_two_simps)
  have m: "Str ''A'' \<in> set (series ?a ''key'')" by (simp add: repeated_frame_simps)
  have 1: "remove_matches \<lparr>cancelled = False\<rparr> ?a ?b ''key'' ''key'' False True
     = Inr \<lparr>result_data = ?b, original_count = 2, result_count = 2,
         operation_type = ''remove_matches'',
         summary = ''Removed 0 matching rows. Result contains 2 rows.''\<rparr>"
    using big
    by (simp add: remove_matches_def v optimized_keeps_matching_row Let_def text_frame_two_simps
        str_nat_digit digit_char_def)
  have 2: "remove_matches \<lparr>cancelled = False\<rparr> ?a ?b ''key'' ''key'' False False
     = Inr \<lparr>result_data = text_frame ''key'' [''b''], original_count = 2, result_count = 1,
         operation_type = ''remove_matches'',
         summary = ''Removed 1 matching rows. Result contains 1 rows.''\<rparr>"
    by (simp add: remove_matches_def v direct_removes_matching_row Let_def text_frame_two_simps
        str_nat_digit digit_char_def)
       (simp add: text_frame_def len_def str_nat_digit digit_char_def)
  show ?thesis using remove_matches_example m 1 2 by simp
qed

section \<open>Encoding fallback of the CSV parser\<close>

lemma try_encodings_skip:
  "\<forall>e \<in> set pre. \<exists>m. reader e = DecodeFailure m \<Longrightarrow>
   \<exists>l. try_encodings reader (pre @ rest) lst = try_encodings reader rest l"
proof (induction pre arbitrary: lst)
  case Nil
  then show ?case by auto
next
  case (Cons a pre)
  then obtain m where m: "reader a = DecodeFailure m" by auto
  from Cons.IH[of "Some m"] Cons.prems obtain l where
    "try_encodings reader (pre @ rest) (Some m) = try_encodings reader rest l" by auto
  then show ?case using m by auto
qed

lemma suffix_data_csv: "str_lower (suffix ''data.csv'') = ''.csv''"
  by (simp add: suffix_def path_name_def path_parts_def str_lower_def lower_char_def upper_letters_def lower_letters_def Let_def)

lemma parse_file_csv:
  assumes "path_exists env p" "str_lower (suffix p) = ''.csv''"
  shows "parse_file env p = parse_csv env p"
  using assms by (simp add: parse_file_def validate_file_format_def supported_extensions_def Let_def)

lemma parse_csv_decided:
  assumes "encoding_fallbacks = pre @ enc # post"
    and "\<forall>e \<in> set pre. \<exists>m. read_csv env p e ''skip'' = DecodeFailure m"
  shows "read_csv env p enc ''skip'' = Table df \<Longrightarrow> parse_csv env p =
      (if empty_frame df
       then Inl (FileParsingError ''Failed to parse CSV file: CSV file is empty or contains no valid data'')
       else Inr df)"
    and "read_csv env p enc ''skip'' = ReadFailure m \<Longrightarrow> parse_csv env p =
      Inl (FileParsingError (''Failed to parse CSV file: '' @ m))"
proof -
  let ?rd = "\<lambda>encoding. read_csv env p encoding ''skip''"
  from try_encodings_skip[of pre ?rd "enc # post" None] assms(2) obtain l where
    l: "try_encodings ?rd (pre @ enc # post) None = try_encodings ?rd (enc # post) l" by auto
  show "read_csv env p enc ''skip'' = Table df \<Longrightarrow> parse_csv env p =
      (if empty_frame df
       then Inl (FileParsingError ''Failed to parse CSV file: CSV file is empty or contains no valid data'')
       else Inr df)"
    using l by (simp add: parse_csv_def assms(1))
  show "read_csv env p enc ''skip'' = ReadFailure m \<Longrightarrow> parse_csv env p =
      Inl (FileParsingError (''Failed to parse CSV file: '' @ m))"
    using l by (simp add: parse_csv_def assms(1))
qed

lemma parse_csv_all_fail:
  assumes "\<forall>e \<in> set encoding_fallbacks. \<exists>m. read_csv env p e ''skip'' = DecodeFailure m"
  shows "\<exists>m. read_csv env p ''iso-8859-1'' ''skip'' = DecodeFailure m \<and>
     parse_csv env p = Inl (FileParsingError
       (''Failed to parse CSV file with any supported encoding. Last error: '' @ m))"
proof -
  from assms obtain m1 m2 m3 m4 where
    "read_csv env p ''utf-8'' ''skip'' = DecodeFailure m1"
    "read_csv env p ''latin-1'' ''skip'' = DecodeFailure m2"
    "read_csv env p ''cp1252'' ''skip'' = DecodeFailure m3"
    "read_csv env p ''iso-8859-1'' ''skip'' = DecodeFailure m4"
    by (auto simp: encoding_fallbacks_def)
  then show ?thesis by (simp add: parse_csv_def encoding_fallbacks_def)
qed


text \<open>
  C3, as stated, fails: for a CSV file with a header line only, the first encoding (utf-8)
  succeeds and produces a table, yet \<open>parse_file\<close> does not return that table but raises a
  parsing error, because the table has no rows.
\<close>

theorem parse_file_first_success_not_returned:
  "read_csv header_only_env ''data.csv'' ''utf-8'' ''skip''
      = Table \<lparr>columns = [(''name'', Object)], rows = []\<rparr>
   \<and> parse_file header_only_env ''data.csv''
      = Inl (FileParsingError ''Failed to parse CSV file: CSV file is empty or contains no valid data'')"
  by (simp add: parse_file_csv suffix_data_csv header_only_env_def parse_csv_def
      encoding_fallbacks_def empty_frame_def)

text \<open>
  C3, amended. For an existing path with extension \<open>.csv\<close>, \<open>parse_file\<close> reads with the
  encodings utf-8, latin-1, cp1252, iso-8859-1 in this order, always in the mode that skips
  malformed rows, and goes on to the next encoding only after a decoding error. The first
  encoding that does not fail with a decoding error decides the outcome: its table is returned
  when it has rows and columns, an empty table raises a parsing error, and any other read
  error raises a parsing error carrying its message, without a further attempt. When every
  encoding fails with a decoding error, the parsing error carries the message of the last
  one.
\<close>

theorem parse_file_csv_encoding_fallback:
  "encoding_fallbacks = [''utf-8'', ''latin-1'', ''cp1252'', ''iso-8859-1'']
   \<and> (path_exists env p \<and> str_lower (suffix p) = ''.csv'' \<longrightarrow>
       (\<forall>pre enc post.
          encoding_fallbacks = pre @ enc # post \<and>
          (\<forall>e \<in> set pre. \<exists>m. read_csv env p e ''skip'' = DecodeFailure m) \<longrightarrow>
          (\<forall>df. read_csv env p enc ''skip'' = Table df \<longrightarrow>
             parse_file env p =
               (if empty_frame df
                then Inl (FileParsingError
                  ''Failed to parse CSV file: CSV file is empty or contains no valid data'')
                else Inr df)) \<and>
          (\<forall>m. read_csv env p enc ''skip'' = ReadFailure m \<longrightarrow>
             parse_file env p = Inl (FileParsingError (''Failed to parse CSV file: '' @ m))))
       \<and> ((\<forall>e \<in> set encoding_fallbacks. \<exists>m. read_csv env p e ''skip'' = DecodeFailure m) \<longrightarrow>
          (\<exists>m. read_csv env p ''iso-8859-1'' ''skip'' = DecodeFailure m \<and>
               parse_file env p = Inl (FileParsingError
                 (''Failed to parse CSV file with any supported encoding. Last error: '' @ m)))))"
proof (intro conjI impI allI)
  show "encoding_fallbacks = [''utf-8'', ''latin-1'', ''cp1252'', ''iso-8859-1'']"
    by (simp add: encoding_fallbacks_def)
next
  fix pre enc post df
  assume a: "path_exists env p \<and> str_lower (suffix p) = ''.csv''"
    and b: "encoding_fallbacks = pre @ enc # post \<and>
          (\<forall>e \<in> set pre. \<exists>m. read_csv env p e ''skip'' = DecodeFailure m)"
    and c: "read_csv env p enc ''skip'' = Table df"
  show "parse_file env p =
      (if empty_frame df
       then Inl (FileParsingError
         ''Failed to parse CSV file: CSV file is empty or contains no valid data'')
       else Inr df)"
    using parse_file_csv[of env p] parse_csv_decided(1)[of pre enc post env p df] a b c by simp
next
  fix pre enc post m
  assume a: "path_exists env p \<and> str_lower (suffix p) = ''.csv''"
    and b: "encoding_fallbacks = pre @ enc # post \<and>
          (\<forall>e \<in> set pre. \<exists>m. read_csv env p e ''skip'' = DecodeFailure m)"
    and c: "read_csv env p enc ''skip'' = ReadFailure m"
  show "parse_file env p = Inl (FileParsingError (''Failed to parse CSV file: '' @ m))"
    using parse_file_csv[of env p] parse_csv_decided(2)[of pre enc post env p m] a b c by simp
next
  assume a: "path_exists env p \<and> str_lower (suffix p) = ''.csv''"
    and b: "\<forall>e \<in> set encoding_fallbacks. \<exists>m. read_csv env p e ''skip'' = DecodeFailure m"
  show "\<exists>m. read_csv env p ''iso-8859-1'' ''skip'' = DecodeFailure m \<and>
       parse_file env p = Inl (FileParsingError
         (''Failed to parse CSV file with any supported encoding. Last error: '' @ m))"
    using parse_file_csv[of env p] parse_csv_all_fail[OF b] a by simp
qed

theorem parse_file_csv_encoding_fallback_witness:
  "path_exists cp1252_env ''data.csv'' \<and> str_lower (suffix ''data.csv'') = ''.csv''
   \<and> encoding_fallbacks = [''utf-8''] @ ''latin-1'' # [''cp1252'', ''iso-8859-1'']
   \<and> read_csv cp1252_env ''data.csv'' ''utf-8'' ''skip'' = DecodeFailure ''invalid start byte''
   \<and> read_csv cp1252_env ''data.csv'' ''latin-1'' ''skip'' = Table (text_frame ''name'' [''caf'', ''na''])
   \<and> parse_file cp1252_env ''data.csv'' = Inr (text_frame ''name'' [''caf'', ''na''])
   \<and> path_exists undecodable_env ''data.csv''
   \<and> read_csv undecodable_env ''data.csv'' ''utf-8'' ''skip''
        = DecodeFailure ''cannot decode as utf-8''
   \<and> read_csv undecodable_env ''data.csv'' ''latin-1'' ''skip''
        = DecodeFailure ''cannot decode as latin-1''
   \<and> read_csv undecodable_env ''data.csv'' ''cp1252'' ''skip''
        = DecodeFailure ''cannot decode as cp1252''
   \<and> read_csv undecodable_env ''data.csv'' ''iso-8859-1'' ''skip''
        = DecodeFailure ''cannot decode as iso-8859-1''
   \<and> parse_file undecodable_env ''data.csv'' = Inl (FileParsingError
        ''Failed to parse CSV file with any supported encoding. Last error: cannot decode as iso-8859-1'')"
proof -
  have h1: "path_exists cp1252_env ''data.csv'' \<and> str_lower (suffix ''data.csv'') = ''.csv''"
    by (simp add: cp1252_env_def suffix_data_csv)
  have h2: "encoding_fallbacks = [''utf-8''] @ ''latin-1'' # [''cp1252'', ''iso-8859-1'']"
    by (simp add: encoding_fallbacks_def)
  have h3: "\<forall>e \<in> set [''utf-8'']. \<exists>m. read_csv cp1252_env ''data.csv'' e ''skip'' = DecodeFailure m"
    by (simp add: cp1252_env_def)
  have h4: "read_csv cp1252_env ''data.csv'' ''latin-1'' ''skip''
      = Table (text_frame ''name'' [''caf'', ''na''])"
    by (simp add: cp1252_env_def)
  have ne: "\<not> empty_frame (text_frame ''name'' [''caf'', ''na''])"
    by (simp add: empty_frame_def text_frame_def)
  have r1: "parse_file cp1252_env ''data.csv'' = Inr (text_frame ''name'' [''caf'', ''na''])"
    using parse_file_csv_encoding_fallback[of cp1252_env "''data.csv''"] h1 h2 h3 h4 ne
    by (metis (no_types, lifting))
  have g1: "path_exists undecodable_env ''data.csv'' \<and> str_lower (suffix ''data.csv'') = ''.csv''"
    by (simp add: undecodable_env_def suffix_data_csv)
  have g2: "\<forall>e \<in> set encoding_fallbacks.
      \<exists>m. read_csv undecodable_env ''data.csv'' e ''skip'' = DecodeFailure m"
    by (simp add: undecodable_env_def)
  have g3: "read_csv undecodable_env ''data.csv'' ''iso-8859-1'' ''skip''
      = DecodeFailure ''cannot decode as iso-8859-1''"
    by (simp add: undecodable_env_def)
  from parse_file_csv_encoding_fallback[of undecodable_env "''data.csv''"] g1 g2
  obtain m where "read_csv undecodable_env ''data.csv'' ''iso-8859-1'' ''skip'' = DecodeFailure m"
    "parse_file undecodable_env ''data.csv'' = Inl (FileParsingError
       (''Failed to parse CSV file with any supported encoding. Last error: '' @ m))"
    by blast
  then have r2: "parse_file undecodable_env ''data.csv'' = Inl (FileParsingError
      ''Failed to parse CSV file with any supported encoding. Last error: cannot decode as iso-8859-1'')"
    using g3 by simp
  have h5: "read_csv cp1252_env ''data.csv'' ''utf-8'' ''skip'' = DecodeFailure ''invalid start byte''"
    by (simp add: cp1252_env_def)
  have g4: "read_csv undecodable_env ''data.csv'' ''utf-8'' ''skip''
        = DecodeFailure ''cannot decode as utf-8''
     \<and> read_csv undecodable_env ''data.csv'' ''latin-1'' ''skip''
        = DecodeFailure ''cannot decode as latin-1''
     \<and> read_csv undecodable_env ''data.csv'' ''cp1252'' ''skip''
        = DecodeFailure ''cannot decode as cp1252''"
    by (simp add: undecodable_env_def)
  show ?thesis using h1 h2 h4 h5 r1 g1 g3 g4 r2 by simp
qed

section \<open>Export format and extension\<close>

lemma mkdir_written: "mkdir fs d = (r, fs') \<Longrightarrow> written fs' = written fs"
  by (auto simp: mkdir_def split: if_splits os_outcome.splits)

lemma validate_file_path_written:
  "validate_file_path fs p = (r, fs') \<Longrightarrow> written fs' = written fs"
  by (auto simp: validate_file_path_def Let_def split: if_splits prod.splits sum.splits error.splits
      dest: mkdir_written)

lemma validate_export_inputs_written:
  "validate_export_inputs fs data p f = (r, fs') \<Longrightarrow> written fs' = written fs"
  by (auto simp: validate_export_inputs_def split: if_splits prod.splits sum.splits
      dest: validate_file_path_written)

lemma validate_export_inputs_extension:
  assumes "(f = ''csv'' \<and> str_lower (suffix p) \<noteq> ''.csv'')
         \<or> (f = ''excel'' \<and> str_lower (suffix p) \<noteq> ''.xlsx'' \<and> str_lower (suffix p) \<noteq> ''.xls'')"
  shows "\<exists>e fs'. validate_export_inputs fs data p f = (Inl e, fs') \<and>
     (\<not> empty_frame data \<and> fst (validate_file_path fs p) = Inr True \<longrightarrow>
        e = ValueError (if f = ''csv'' then ''CSV format requires .csv file extension''
                        else ''Excel format requires .xlsx or .xls file extension''))"
  using assms
  by (auto simp: validate_export_inputs_def supported_formats_def split: prod.splits sum.splits)


lemma export_to_wrong_extension:
  assumes "(f = ''csv'' \<and> str_lower (suffix p) \<noteq> ''.csv'')
         \<or> (f = ''excel'' \<and> str_lower (suffix p) \<noteq> ''.xlsx'' \<and> str_lower (suffix p) \<noteq> ''.xls'')"
  shows "\<exists>msg fs'. export_to f prefix fs data p = (Inl (Exception msg), fs') \<and>
     written fs' = written fs \<and>
     (\<not> empty_frame data \<and> fst (validate_file_path fs p) = Inr True \<longrightarrow>
        msg = prefix @ (if f = ''csv'' then ''CSV format requires .csv file extension''
                        else ''Excel format requires .xlsx or .xls file extension''))"
proof -
  from validate_export_inputs_extension[OF assms, of fs data] obtain e fs' where
    v: "validate_export_inputs fs data p f = (Inl e, fs')"
    and m: "\<not> empty_frame data \<and> fst (validate_file_path fs p) = Inr True \<longrightarrow>
        e = ValueError (if f = ''csv'' then ''CSV format requires .csv file extension''
                        else ''Excel format requires .xlsx or .xls file extension'')"
    by blast
  have w: "written fs' = written fs" using validate_export_inputs_written[OF v] .
  have "export_to f prefix fs data p = (Inl (Exception (prefix @ message_of e)), fs')"
    by (simp add: export_to_def v)
  moreover have "\<not> empty_frame data \<and> fst (validate_file_path fs p) = Inr True \<longrightarrow>
      prefix @ message_of e = prefix @ (if f = ''csv'' then ''CSV format requires .csv file extension''
                        else ''Excel format requires .xlsx or .xls file extension'')"
    using m by auto
  ultimately show ?thesis using w by blast
qed

lemma suffix_examples:
  "str_lower (suffix ''out/result.xlsx'') = ''.xlsx''"
  "str_lower (suffix ''out/result.csv'') = ''.csv''"
  "parent ''out/result.xlsx'' = ''out''"
  "parent ''out/result.csv'' = ''out''"
  by (simp_all add: suffix_def path_name_def path_parts_def str_lower_def lower_char_def upper_letters_def lower_letters_def Let_def
      parent_def)

lemma validate_file_path_out:
  "validate_file_path out_dir_fs ''out/result.xlsx'' = (Inr True, out_dir_fs)"
  "validate_file_path out_dir_fs ''out/result.csv'' = (Inr True, out_dir_fs)"
  by (simp_all add: validate_file_path_def suffix_examples out_dir_fs_def Let_def)

lemma text_frame_not_empty: "vs \<noteq> [] \<Longrightarrow> \<not> empty_frame (text_frame c vs)"
  by (simp add: empty_frame_def text_frame_def)

lemma export_examples:
  "export_to_csv out_dir_fs (text_frame ''key'' [''d'', ''e'']) ''out/result.xlsx''
     = (Inl (Exception ''Failed to export CSV file: CSV format requires .csv file extension''),
        out_dir_fs)"
  "export_to_excel out_dir_fs (text_frame ''key'' [''d'', ''e'']) ''out/result.csv''
     = (Inl (Exception
          ''Failed to export Excel file: Excel format requires .xlsx or .xls file extension''),
        out_dir_fs)"
  by (simp_all add: export_to_csv_def export_to_excel_def export_to_def validate_export_inputs_def
      text_frame_not_empty supported_formats_def validate_file_path_out suffix_examples)

text \<open>
  C6. A CSV export to a path whose extension is not \<open>.csv\<close>, and an Excel export to a path
  whose extension is neither \<open>.xlsx\<close> nor \<open>.xls\<close>, raise and write nothing: the extension is
  checked during input validation, before the directory is prepared and the table written.
  When the data is non-empty and the path itself is valid, the raised exception carries the
  message of the extension check. The exports of a table to \<open>out/result.xlsx\<close> as CSV and to
  \<open>out/result.csv\<close> as Excel raise so and leave the file system as it was.
\<close>

theorem export_rejects_wrong_extension:
  "(str_lower (suffix p) \<noteq> ''.csv'' \<longrightarrow>
      (\<exists>msg fs'. export_to_csv fs data p = (Inl (Exception msg), fs') \<and>
         written fs' = written fs \<and>
         (\<not> empty_frame data \<and> fst (validate_file_path fs p) = Inr True \<longrightarrow>
            msg = ''Failed to export CSV file: CSV format requires .csv file extension'')))
   \<and> (str_lower (suffix p) \<noteq> ''.xlsx'' \<and> str_lower (suffix p) \<noteq> ''.xls'' \<longrightarrow>
      (\<exists>msg fs'. export_to_excel fs data p = (Inl (Exception msg), fs') \<and>
         written fs' = written fs \<and>
         (\<not> empty_frame data \<and> fst (validate_file_path fs p) = Inr True \<longrightarrow>
            msg = ''Failed to export Excel file: Excel format requires .xlsx or .xls file extension'')))
   \<and> export_to_csv out_dir_fs (text_frame ''key'' [''d'', ''e'']) ''out/result.xlsx''
     = (Inl (Exception ''Failed to export CSV file: CSV format requires .csv file extension''),
        out_dir_fs)
   \<and> export_to_excel out_dir_fs (text_frame ''key'' [''d'', ''e'']) ''out/result.csv''
     = (Inl (Exception
          ''Failed to export Excel file: Excel format requires .xlsx or .xls file extension''),
        out_dir_fs)"
proof (intro conjI impI)
  assume "str_lower (suffix p) \<noteq> ''.csv''"
  then show "\<exists>msg fs'. export_to_csv fs data p = (Inl (Exception msg), fs') \<and>
         written fs' = written fs \<and>
         (\<not> empty_frame data \<and> fst (validate_file_path fs p) = Inr True \<longrightarrow>
            msg = ''Failed to export CSV file: CSV format requires .csv file extension'')"
    using export_to_wrong_extension[of "''csv''" p "''Failed to export CSV file: ''" fs data]
    by (simp add: export_to_csv_def)
next
  assume "str_lower (suffix p) \<noteq> ''.xlsx'' \<and> str_lower (suffix p) \<noteq> ''.xls''"
  then show "\<exists>msg fs'. export_to_excel fs data p = (Inl (Exception msg), fs') \<and>
         written fs' = written fs \<and>
         (\<not> empty_frame data \<and> fst (validate_file_path fs p) = Inr True \<longrightarrow>
            msg = ''Failed to export Excel file: Excel format requires .xlsx or .xls file extension'')"
    using export_to_wrong_extension[of "''excel''" p "''Failed to export Excel file: ''" fs data]
    by (simp add: export_to_excel_def)
qed (rule export_examples)+

theorem export_rejects_wrong_extension_witness:
  "str_lower (suffix ''out/result.xlsx'') \<noteq> ''.csv''
   \<and> str_lower (suffix ''out/result.csv'') \<noteq> ''.xlsx''
   \<and> str_lower (suffix ''out/result.csv'') \<noteq> ''.xls''
   \<and> \<not> empty_frame (text_frame ''key'' [''d'', ''e''])
   \<and> fst (validate_file_path out_dir_fs ''out/result.xlsx'') = Inr True
   \<and> fst (validate_file_path out_dir_fs ''out/result.csv'') = Inr True
   \<and> (\<exists>fs'. export_to_csv out_dir_fs (text_frame ''key'' [''d'', ''e'']) ''out/result.xlsx''
          = (Inl (Exception ''Failed to export CSV file: CSV format requires .csv file extension''), fs')
        \<and> written fs' = [])
   \<and> (\<exists>fs'. export_to_excel out_dir_fs (text_frame ''key'' [''d'', ''e'']) ''out/result.csv''
          = (Inl (Exception
              ''Failed to export Excel file: Excel format requires .xlsx or .xls file extension''), fs')
        \<and> written fs' = [])
   \<and> written (snd (export_to_csv out_dir_fs (text_frame ''key'' [''d'', ''e'']) ''out/result.csv''))
        = [(''out/result.csv'', text_frame ''key'' [''d'', ''e''])]"
proof -
  let ?df = "text_frame ''key'' [''d'', ''e'']"
  have s: "str_lower (suffix ''out/result.xlsx'') \<noteq> ''.csv''"
    "str_lower (suffix ''out/result.csv'') \<noteq> ''.xlsx'' \<and> str_lower (suffix ''out/result.csv'') \<noteq> ''.xls''"
    by (simp_all add: suffix_examples)
  have ne: "\<not> empty_frame ?df" by (simp add: text_frame_not_empty)
  have v: "fst (validate_file_path out_dir_fs ''out/result.xlsx'') = Inr True"
    "fst (validate_file_path out_dir_fs ''out/result.csv'') = Inr True"
    by (simp_all add: validate_file_path_out)
  have w0: "written out_dir_fs = []" by (simp add: out_dir_fs_def)
  from export_rejects_wrong_extension[of "''out/result.xlsx''" out_dir_fs ?df] s(1) ne v(1) w0
  have c: "\<exists>fs'. export_to_csv out_dir_fs ?df ''out/result.xlsx''
          = (Inl (Exception ''Failed to export CSV file: CSV format requires .csv file extension''), fs')
        \<and> written fs' = []"
    by (metis (no_types, lifting))
  from export_rejects_wrong_extension[of "''out/result.csv''" out_dir_fs ?df] s(2) ne v(2) w0
  have x: "\<exists>fs'. export_to_excel out_dir_fs ?df ''out/result.csv''
          = (Inl (Exception
              ''Failed to export Excel file: Excel format requires .xlsx or .xls file extension''), fs')
        \<and> written fs' = []"
    by (metis (no_types, lifting))
  have ok: "written (snd (export_to_csv out_dir_fs ?df ''out/result.csv''))
        = [(''out/result.csv'', ?df)]"
    by (simp add: export_to_csv_def export_to_def validate_export_inputs_def ne
        supported_formats_def validate_file_path_out suffix_examples ensure_directory_exists_def
        mkdir_def write_table_def)
       (simp add: out_dir_fs_def)
  show ?thesis using s ne v c x ok by blast
qed

section \<open>Workflow transitions\<close>

lemma validators_state:
  "current_state (snd (validate_file_selection c)) = current_state c"
  "current_state (snd (validate_column_mapping c)) = current_state c"
  "current_state (snd (validate_operation_config c)) = current_state c"
  by (auto simp: validate_file_selection_def validate_column_mapping_def
      validate_operation_config_def showerror_def split: option.splits)

lemma validate_current_step_state:
  "current_state (snd (validate_current_step c)) = current_state c"
  by (cases "current_state c") (simp_all add: validators_state)

lemma validate_workflow_transition_state:
  "current_state (snd (validate_workflow_transition c f)) = current_state c"
  by (cases "current_state c") (simp_all add: validate_workflow_transition_def validators_state)

lemma show_current_panel_state:
  "current_state (show_current_panel can_display c) =
     (if can_display (current_state c) then current_state c else FILE_SELECTION)"
  by (simp add: show_current_panel_def Let_def)

lemma update_workflow_state_state:
  "current_state (update_workflow_state can_display c s) =
     (if can_display s then s else FILE_SELECTION)"
  by (simp add: update_workflow_state_def show_current_panel_state)

lemma workflow_state_next:
  "state_value s < 3 \<Longrightarrow> \<exists>n. workflow_state (state_value s + 1) = Inr n \<and> state_value n = state_value s + 1"
  by (cases s) (simp_all add: workflow_state_def)

lemma workflow_state_prev:
  "state_value s > 0 \<Longrightarrow> \<exists>n. workflow_state (state_value s - 1) = Inr n \<and> state_value n + 1 = state_value s"
  by (cases s) (simp_all add: workflow_state_def)

lemma handle_next_step_cases:
  "current_state (handle_next_step can_display prep exec c) = current_state c
   \<or> (fst (validate_current_step c) \<and>
       (state_value (current_state (handle_next_step can_display prep exec c))
          = state_value (current_state c) + 1
        \<or> (current_state (handle_next_step can_display prep exec c) = FILE_SELECTION
            \<and> \<not> (\<forall>s. can_display s))))"
proof (cases "validate_current_step c")
  case (Pair ok c1)
  note v1 = this
  have s1: "current_state c1 = current_state c"
    using validate_current_step_state[of c] v1 by simp
  show ?thesis
  proof (cases ok)
    case False
    then show ?thesis using v1 s1 by (simp add: handle_next_step_def)
  next
    case True
    note ok = this
    obtain ok2 c2 where v2: "validate_workflow_transition c1 True = (ok2, c2)"
      by (cases "validate_workflow_transition c1 True")
    have s2: "current_state c2 = current_state c"
      using validate_workflow_transition_state[of c1 True] v2 s1 by simp
    show ?thesis
    proof (cases "ok2 \<and> state_value (current_state c) < 3")
      case False
      then have "handle_next_step can_display prep exec c = c2"
        using v1 ok v2 s2 by (cases ok2) (simp_all add: handle_next_step_def)
      then show ?thesis using s2 by simp
    next
      case True
      then obtain n where n: "workflow_state (state_value (current_state c) + 1) = Inr n"
        "state_value n = state_value (current_state c) + 1"
        using workflow_state_next by blast
      have "current_state (handle_next_step can_display prep exec c)
          = (if can_display n then n else FILE_SELECTION)"
        using v1 ok v2 s2 True n
        by (simp add: handle_next_step_def Let_def update_workflow_state_state)
      then show ?thesis using n v1 ok by auto
    qed
  qed
qed


lemma handle_previous_step_cases:
  "current_state (handle_previous_step can_display c) = current_state c
   \<or> state_value (current_state (handle_previous_step can_display c)) + 1
        = state_value (current_state c)
   \<or> (current_state (handle_previous_step can_display c) = FILE_SELECTION
       \<and> \<not> (\<forall>s. can_display s))"
proof (cases "state_value (current_state c) > 0")
  case False
  then show ?thesis
    by (simp add: handle_previous_step_def validate_workflow_transition_def)
next
  case True
  then obtain n where n: "workflow_state (state_value (current_state c) - 1) = Inr n"
    "state_value n + 1 = state_value (current_state c)"
    using workflow_state_prev by blast
  have "current_state (handle_previous_step can_display c)
      = (if can_display n then n else FILE_SELECTION)"
    using True n
    by (simp add: handle_previous_step_def validate_workflow_transition_def
        update_workflow_state_state)
  then show ?thesis using n by auto
qed

lemma next_step_blocked:
  assumes "current_state c = FILE_SELECTION" "file1_info c = None \<or> file2_info c = None"
  shows "handle_next_step can_display prep exec c
     = showerror ''Validation Error'' ''Please select both files before proceeding.'' c"
  using assms by (auto simp: handle_next_step_def validate_file_selection_def)

lemma next_step_advances:
  assumes "fst (validate_current_step c)" "current_state c \<noteq> RESULTS"
  shows "current_state (handle_next_step can_display prep exec c)
     = (case workflow_state (state_value (current_state c) + 1) of
          Inr n \<Rightarrow> if can_display n then n else FILE_SELECTION
        | Inl e \<Rightarrow> current_state c)"
proof -
  have v1: "validate_current_step c = (True, c)"
    using assms(1)
    by (cases "current_state c")
       (auto simp: validate_file_selection_def validate_column_mapping_def
          validate_operation_config_def split: option.splits if_splits)
  have lt: "state_value (current_state c) < 3" using assms(2) by (cases "current_state c") simp_all
  have v2: "validate_workflow_transition c True = (True, c)"
    using v1 lt assms(2)
    by (cases "current_state c") (simp_all add: validate_workflow_transition_def)
  from workflow_state_next[OF lt] obtain n where
    n: "workflow_state (state_value (current_state c) + 1) = Inr n" by blast
  show ?thesis using v1 v2 lt n
    by (simp add: handle_next_step_def Let_def update_workflow_state_state)
qed

text \<open>
  C4. From the file selection with at most one file selected, \<open>_handle_next_step\<close> leaves the
  workflow state unchanged and shows the validation error asking for both files; with both
  files selected, and the column-mapping panel displayable, it moves the state to the column
  mapping. In general, while the panels can be displayed, a call of \<open>_handle_next_step\<close>
  either leaves the state unchanged or moves it forward by exactly one step, the latter only
  if the validator of the current step passed, and it does move forward when the validator
  passes in a state other than the last; a call of \<open>_handle_previous_step\<close> either leaves the
  state unchanged or moves it back by exactly one step.
\<close>

theorem next_step_gated_by_validation:
  "(current_state c = FILE_SELECTION \<and> (file1_info c = None \<or> file2_info c = None) \<longrightarrow>
      current_state (handle_next_step can_display prep exec c) = FILE_SELECTION \<and>
      ui_events (handle_next_step can_display prep exec c) = ui_events c @
        [ShowError ''Validation Error'' ''Please select both files before proceeding.''])
   \<and> (current_state c = FILE_SELECTION \<and> file1_info c \<noteq> None \<and> file2_info c \<noteq> None
        \<and> can_display COLUMN_MAPPING \<longrightarrow>
      current_state (handle_next_step can_display prep exec c) = COLUMN_MAPPING)
   \<and> ((\<forall>s. can_display s) \<longrightarrow>
      (current_state (handle_next_step can_display prep exec c) = current_state c
       \<or> (fst (validate_current_step c) \<and>
           state_value (current_state (handle_next_step can_display prep exec c))
             = state_value (current_state c) + 1))
      \<and> (fst (validate_current_step c) \<and> current_state c \<noteq> RESULTS \<longrightarrow>
           state_value (current_state (handle_next_step can_display prep exec c))
             = state_value (current_state c) + 1)
      \<and> (current_state (handle_previous_step can_display c) = current_state c
           \<or> state_value (current_state (handle_previous_step can_display c)) + 1
              = state_value (current_state c)))"
proof (intro conjI impI)
  assume a: "current_state c = FILE_SELECTION \<and> (file1_info c = None \<or> file2_info c = None)"
  then have e: "handle_next_step can_display prep exec c
     = showerror ''Validation Error'' ''Please select both files before proceeding.'' c"
    using next_step_blocked by blast
  show "current_state (handle_next_step can_display prep exec c) = FILE_SELECTION"
    using a by (simp add: e showerror_def)
  show "ui_events (handle_next_step can_display prep exec c) = ui_events c @
        [ShowError ''Validation Error'' ''Please select both files before proceeding.'']"
    by (simp add: e showerror_def)
next
  assume a: "current_state c = FILE_SELECTION \<and> file1_info c \<noteq> None \<and> file2_info c \<noteq> None
        \<and> can_display COLUMN_MAPPING"
  then have "fst (validate_current_step c)" "current_state c \<noteq> RESULTS"
    by (auto simp: validate_file_selection_def)
  from next_step_advances[OF this, of can_display prep exec] a
  show "current_state (handle_next_step can_display prep exec c) = COLUMN_MAPPING"
    by (simp add: workflow_state_def)
next
  assume a: "\<forall>s. can_display s"
  show "current_state (handle_next_step can_display prep exec c) = current_state c
       \<or> (fst (validate_current_step c) \<and>
           state_value (current_state (handle_next_step can_display prep exec c))
             = state_value (current_state c) + 1)"
    using handle_next_step_cases[of can_display prep exec c] a by blast
  show "current_state (handle_previous_step can_display c) = current_state c
           \<or> state_value (current_state (handle_previous_step can_display c)) + 1
              = state_value (current_state c)"
    using handle_previous_step_cases[of can_display c] a by blast
next
  assume a: "\<forall>s. can_display s"
    and b: "fst (validate_current_step c) \<and> current_state c \<noteq> RESULTS"
  then have lt: "state_value (current_state c) < 3" by (cases "current_state c") simp_all
  from workflow_state_next[OF lt] obtain n where
    n: "workflow_state (state_value (current_state c) + 1) = Inr n"
       "state_value n = state_value (current_state c) + 1" by blast
  show "state_value (current_state (handle_next_step can_display prep exec c))
             = state_value (current_state c) + 1"
    using next_step_advances[of c can_display prep exec] a b n by simp
qed

theorem next_step_gated_by_validation_witness:
  "current_state one_file_controller = FILE_SELECTION
   \<and> (file1_info one_file_controller = None \<or> file2_info one_file_controller = None)
   \<and> current_state (handle_next_step (\<lambda>s. True) id id one_file_controller) = FILE_SELECTION
   \<and> ui_events (handle_next_step (\<lambda>s. True) id id one_file_controller)
        = [ShowError ''Validation Error'' ''Please select both files before proceeding.'']
   \<and> current_state two_files_controller = FILE_SELECTION
   \<and> file1_info two_files_controller \<noteq> None \<and> file2_info two_files_controller \<noteq> None
   \<and> (\<forall>s. (\<lambda>s. True) s)
   \<and> fst (validate_current_step two_files_controller)
   \<and> current_state (handle_next_step (\<lambda>s. True) id id two_files_controller) = COLUMN_MAPPING
   \<and> state_value (current_state (handle_next_step (\<lambda>s. True) id id two_files_controller)) = 1"
proof -
  have o: "current_state one_file_controller = FILE_SELECTION"
    "file1_info one_file_controller = None \<or> file2_info one_file_controller = None"
    "ui_events one_file_controller = []"
    by (simp_all add: one_file_controller_def initial_controller_def)
  have t: "current_state two_files_controller = FILE_SELECTION"
    "file1_info two_files_controller \<noteq> None" "file2_info two_files_controller \<noteq> None"
    by (simp_all add: two_files_controller_def initial_controller_def)
  have v: "fst (validate_current_step two_files_controller)"
    using t by (simp add: validate_file_selection_def)
  have r: "current_state two_files_controller \<noteq> RESULTS" using t by simp
  note th1 = next_step_gated_by_validation[of one_file_controller "\<lambda>s. True" id id]
  note th2 = next_step_gated_by_validation[of two_files_controller "\<lambda>s. True" id id]
  have 1: "current_state (handle_next_step (\<lambda>s. True) id id one_file_controller) = FILE_SELECTION"
    "ui_events (handle_next_step (\<lambda>s. True) id id one_file_controller)
        = [ShowError ''Validation Error'' ''Please select both files before proceeding.'']"
    using th1 o by simp_all
  have 2: "current_state (handle_next_step (\<lambda>s. True) id id two_files_controller) = COLUMN_MAPPING"
    using th2 t by simp
  have 3: "state_value (current_state (handle_next_step (\<lambda>s. True) id id two_files_controller)) = 1"
    using th2 v r t by simp
  show ?thesis using o t v 1 2 3 by simp
qed

section \<open>Retry limit of the error handler\<close>

text \<open>With a retry allowed and a callback given, \<open>handle_error\<close> goes to the retry dialog.\<close>

lemma handle_error_with_retry:
  "handle_error describe h err context True True True answers outcomes =
     show_retry_dialog describe h (dialog_title (categorize_error err))
       (detailed_message (fst (describe err context)) (snd (describe err context)))
       context answers outcomes"
  by (simp add: handle_error.simps show_error_dialog.simps split: prod.split)

lemma show_retry_dialog_at_limit:
  assumes "max_retries h \<le> (case retry_counts h context of None \<Rightarrow> 0 | Some n \<Rightarrow> n)"
  shows "show_retry_dialog describe h t m context answers outcomes =
           Some (False,
                 h\<lparr>dialogs := dialogs h @ [ShowErrorBox t (final_message m (max_retries h))]\<rparr>,
                 answers, outcomes)"
  using assms by (simp add: show_retry_dialog.simps)

lemma show_retry_dialog_failed_retry:
  assumes "(case retry_counts h context of None \<Rightarrow> 0 | Some n \<Rightarrow> n) = k"
    and "k < max_retries h"
  shows "show_retry_dialog describe h t m context (True # answers) (Returns False # outcomes) =
           Some (False,
                 h\<lparr>dialogs := dialogs h @ [AskYesNo t (retry_message m k (max_retries h))],
                   retry_counts := (retry_counts h)(context \<mapsto> k + 1)\<rparr>,
                 answers, outcomes)"
  using assms by (simp add: show_retry_dialog.simps Let_def)

lemma show_retry_dialog_declined:
  assumes "(case retry_counts h context of None \<Rightarrow> 0 | Some n \<Rightarrow> n) = k"
    and "k < max_retries h"
  shows "show_retry_dialog describe h t m context (False # answers) outcomes =
           Some (False,
                 h\<lparr>dialogs := dialogs h @ [AskYesNo t (retry_message m k (max_retries h))],
                   retry_counts := (retry_counts h)(context \<mapsto> 0)\<rparr>,
                 answers, outcomes)"
  using assms by (simp add: show_retry_dialog.simps Let_def)

text \<open>
  Retries that the user accepts and that fail, the callback returning a false value, are
  counted under the context until the limit: the prompts shown carry the attempt numbers in
  order.
\<close>

lemma failed_retries_up_to_limit:
  assumes "(case retry_counts h context of None \<Rightarrow> 0 | Some n \<Rightarrow> n) = k"
    and "k + n \<le> max_retries h"
  shows "\<exists>h'. handle_repeatedly describe err context n h
             (replicate n True @ answers) (replicate n (Returns False) @ outcomes)
           = Some (h', answers, outcomes)
         \<and> max_retries h' = max_retries h
         \<and> (case retry_counts h' context of None \<Rightarrow> 0 | Some n \<Rightarrow> n) = k + n
         \<and> dialogs h' = dialogs h @
             map (\<lambda>i. AskYesNo (dialog_title (categorize_error err))
                        (retry_message
                           (detailed_message (fst (describe err context)) (snd (describe err context)))
                           i (max_retries h)))
                 [k ..< k + n]"
  using assms
proof (induction n arbitrary: h k)
  case 0
  then show ?case by simp
next
  case (Suc n)
  let ?t = "dialog_title (categorize_error err)"
  let ?m = "detailed_message (fst (describe err context)) (snd (describe err context))"
  define h1 where "h1 = h\<lparr>dialogs := dialogs h @ [AskYesNo ?t (retry_message ?m k (max_retries h))],
                   retry_counts := (retry_counts h)(context \<mapsto> k + 1)\<rparr>"
  have k: "k < max_retries h" using Suc.prems by simp
  have step: "handle_error describe h err context True True True
                (True # replicate n True @ answers) (Returns False # replicate n (Returns False) @ outcomes)
              = Some (False, h1, replicate n True @ answers, replicate n (Returns False) @ outcomes)"
    unfolding handle_error_with_retry h1_def
    by (rule show_retry_dialog_failed_retry[OF Suc.prems(1) k])
  have c1: "(case retry_counts h1 context of None \<Rightarrow> 0 | Some n \<Rightarrow> n) = k + 1"
    by (simp add: h1_def)
  have m1: "max_retries h1 = max_retries h" by (simp add: h1_def)
  have b1: "(k + 1) + n \<le> max_retries h1" using Suc.prems m1 by simp
  from Suc.IH[OF c1 b1] obtain h' where
    r: "handle_repeatedly describe err context n h1
             (replicate n True @ answers) (replicate n (Returns False) @ outcomes)
           = Some (h', answers, outcomes)"
    and m: "max_retries h' = max_retries h1"
    and c: "(case retry_counts h' context of None \<Rightarrow> 0 | Some n \<Rightarrow> n) = k + 1 + n"
    and d: "dialogs h' = dialogs h1 @
             map (\<lambda>i. AskYesNo ?t (retry_message ?m i (max_retries h1))) [k + 1 ..< k + 1 + n]"
    by blast
  have "handle_repeatedly describe err context (Suc n) h
             (replicate (Suc n) True @ answers) (replicate (Suc n) (Returns False) @ outcomes)
           = Some (h', answers, outcomes)"
    using step r by simp
  moreover have "max_retries h' = max_retries h" using m m1 by simp
  moreover have "(case retry_counts h' context of None \<Rightarrow> 0 | Some n \<Rightarrow> n) = k + Suc n"
    using c by simp
  moreover have "dialogs h' = dialogs h @
             map (\<lambda>i. AskYesNo ?t (retry_message ?m i (max_retries h))) [k ..< k + Suc n]"
  proof -
    have "[k ..< k + Suc n] = k # [k + 1 ..< k + 1 + n]"
      by (simp add: upt_conv_Cons)
    then show ?thesis using d m1 by (simp add: h1_def)
  qed
  ultimately show ?case by blast
qed


lemma retry_count_fresh:
  "retry_counts h context = None \<or> retry_counts h context = Some 0
     \<Longrightarrow> (case retry_counts h context of None \<Rightarrow> 0 | Some n \<Rightarrow> n) = 0"
  by auto

text \<open>
  When the callback raises, the retry dialog calls \<open>handle_error\<close> again under the context
  \<open>Retry attempt n\<close> and not under the context it was given, so the renewed failure is counted
  under another key: a callback that raises at every call, with every prompt accepted, is
  offered six prompts before the dialog of the limit.
\<close>

lemma raising_callback_prompts:
  "map_option (\<lambda>(r, h, a, b). (r, retry_prompts h, length (dialogs h)))
     (handle_error plain_description new_error_handler (RuntimeError ''boom'') ''load''
        True True True (replicate 6 True) (replicate 6 (Raises (RuntimeError ''boom''))))
   = Some (False, 6, 7)"
  by (simp add: handle_error.simps show_error_dialog.simps show_retry_dialog.simps
        new_error_handler_def plain_description_def retry_prompts_def numeral_eq_Suc
        str_nat_digit digit_char_def Let_def)

text \<open>
  C8. The retry dialog of the error handler enforces a limit of three retry attempts for each
  context. When the same error is handled four times in a row under the same context, in a
  handler whose limit is three and whose count for the context is at zero, the user accepting
  each prompt and the retry failing each time, exactly three retry prompts are shown, numbered
  1 to 3 of 3, and the fourth time only the dialog \<open>Maximum retry attempts (3) reached.\<close> is
  shown: it asks no answer of the user and does not call the callback.
\<close>

theorem retry_cap_three_prompts_then_terminal:
  assumes "max_retries h = 3"
    and "retry_counts h context = None \<or> retry_counts h context = Some 0"
  shows "handle_repeatedly describe err context 4 h
           ([True, True, True] @ answers)
           ([Returns False, Returns False, Returns False] @ outcomes)
         = Some (h\<lparr>dialogs := dialogs h @
                     [AskYesNo (dialog_title (categorize_error err))
                        (retry_message (detailed_message (fst (describe err context))
                           (snd (describe err context))) 0 3),
                      AskYesNo (dialog_title (categorize_error err))
                        (retry_message (detailed_message (fst (describe err context))
                           (snd (describe err context))) 1 3),
                      AskYesNo (dialog_title (categorize_error err))
                        (retry_message (detailed_message (fst (describe err context))
                           (snd (describe err context))) 2 3),
                      ShowErrorBox (dialog_title (categorize_error err))
                        (final_message (detailed_message (fst (describe err context))
                           (snd (describe err context))) 3)],
                   retry_counts := (retry_counts h)(context \<mapsto> 3)\<rparr>,
                 answers, outcomes)"
proof -
  let ?t = "dialog_title (categorize_error err)"
  let ?m = "detailed_message (fst (describe err context)) (snd (describe err context))"
  define h1 where "h1 = h\<lparr>dialogs := dialogs h @ [AskYesNo ?t (retry_message ?m 0 3)],
                          retry_counts := (retry_counts h)(context \<mapsto> 1)\<rparr>"
  define h2 where "h2 = h1\<lparr>dialogs := dialogs h1 @ [AskYesNo ?t (retry_message ?m 1 3)],
                          retry_counts := (retry_counts h1)(context \<mapsto> 2)\<rparr>"
  define h3 where "h3 = h2\<lparr>dialogs := dialogs h2 @ [AskYesNo ?t (retry_message ?m 2 3)],
                          retry_counts := (retry_counts h2)(context \<mapsto> 3)\<rparr>"
  define h4 where "h4 = h3\<lparr>dialogs := dialogs h3 @ [ShowErrorBox ?t (final_message ?m 3)]\<rparr>"
  have s1: "handle_error describe h err context True True True
              (True # True # True # answers)
              (Returns False # Returns False # Returns False # outcomes)
            = Some (False, h1, True # True # answers, Returns False # Returns False # outcomes)"
    using show_retry_dialog_failed_retry[OF retry_count_fresh[OF assms(2)], of describe "?t" "?m"]
      assms(1)
    by (simp add: handle_error_with_retry h1_def)
  have s2: "handle_error describe h1 err context True True True
              (True # True # answers) (Returns False # Returns False # outcomes)
            = Some (False, h2, True # answers, Returns False # outcomes)"
    using show_retry_dialog_failed_retry[of h1 "context" 1 describe "?t" "?m"] assms(1)
    by (simp add: handle_error_with_retry h1_def h2_def numeral_2_eq_2)
  have s3: "handle_error describe h2 err context True True True
              (True # answers) (Returns False # outcomes)
            = Some (False, h3, answers, outcomes)"
    using show_retry_dialog_failed_retry[of h2 "context" 2 describe "?t" "?m"] assms(1)
    by (simp add: handle_error_with_retry h1_def h2_def h3_def numeral_2_eq_2 numeral_3_eq_3)
  have s4: "handle_error describe h3 err context True True True answers outcomes
            = Some (False, h4, answers, outcomes)"
    using show_retry_dialog_at_limit[of h3 "context" describe "?t" "?m"] assms(1)
    by (simp add: handle_error_with_retry h1_def h2_def h3_def h4_def)
  have "handle_repeatedly describe err context 4 h
           ([True, True, True] @ answers)
           ([Returns False, Returns False, Returns False] @ outcomes)
        = Some (h4, answers, outcomes)"
    using s1 s2 s3 s4 by (simp add: numeral_eq_Suc)
  moreover have "h4 = h\<lparr>dialogs := dialogs h @
                     [AskYesNo ?t (retry_message ?m 0 3), AskYesNo ?t (retry_message ?m 1 3),
                      AskYesNo ?t (retry_message ?m 2 3), ShowErrorBox ?t (final_message ?m 3)],
                   retry_counts := (retry_counts h)(context \<mapsto> 3)\<rparr>"
    by (simp add: h1_def h2_def h3_def h4_def)
  ultimately show ?thesis by simp
qed

theorem retry_cap_three_prompts_then_terminal_witness:
  "max_retries new_error_handler = 3
   \<and> (retry_counts new_error_handler ''load'' = None
        \<or> retry_counts new_error_handler ''load'' = Some 0)
   \<and> handle_repeatedly plain_description (RuntimeError ''boom'') ''load'' 4 new_error_handler
         [True, True, True] [Returns False, Returns False, Returns False]
       = Some (\<lparr>retry_counts = [''load'' \<mapsto> 3], max_retries = 3,
                 dialogs =
                   [AskYesNo ''Error'' (''boom'' @ newline @ newline @ ''Suggestions:'' @ newline
                      @ newline @ newline @ ''Would you like to try again? (Attempt 1 of 3)''),
                    AskYesNo ''Error'' (''boom'' @ newline @ newline @ ''Suggestions:'' @ newline
                      @ newline @ newline @ ''Would you like to try again? (Attempt 2 of 3)''),
                    AskYesNo ''Error'' (''boom'' @ newline @ newline @ ''Suggestions:'' @ newline
                      @ newline @ newline @ ''Would you like to try again? (Attempt 3 of 3)''),
                    ShowErrorBox ''Error'' (''boom'' @ newline @ newline @ ''Suggestions:''
                      @ newline @ newline @ newline @ ''Maximum retry attempts (3) reached.'')]\<rparr>,
               [], [])"
  using retry_cap_three_prompts_then_terminal
          [of new_error_handler "''load''" plain_description "RuntimeError ''boom''" "[]" "[]"]
  by (simp add: new_error_handler_def plain_description_def retry_message_def final_message_def
        detailed_message_def str_nat_digit digit_char_def)


end
